theory Spec2Isabelle
  imports Complex_Main "HOL-Library.Sublist" "HOL-Library.Product_Lexorder" "HOL-Library.Log_Nat"
begin

section \<open>Strings\<close>

text \<open>
  Python strings are modelled as \<open>string\<close> (lists of characters). The operator
  \<^verbatim>\<open>a in b\<close> on two strings is contiguous-substring containment, which is
  \<^const>\<open>sublist\<close>. \<^verbatim>\<open>str.lower()\<close> and \<^verbatim>\<open>str.upper()\<close> are modelled on the
  ASCII letters, by the table of the 26 letters; every other character is left as it
  is.
\<close>

definition str_in :: "string \<Rightarrow> string \<Rightarrow> bool" where
  "str_in needle hay = sublist needle hay"

definition ascii_uppercase :: string where
  "ascii_uppercase = ''ABCDEFGHIJKLMNOPQRSTUVWXYZ''"

definition ascii_lowercase :: string where
  "ascii_lowercase = ''abcdefghijklmnopqrstuvwxyz''"

definition lower_char :: "char \<Rightarrow> char" where
  "lower_char c =
     (case map_of (zip ascii_uppercase ascii_lowercase) c of Some d \<Rightarrow> d | None \<Rightarrow> c)"

definition upper_char :: "char \<Rightarrow> char" where
  "upper_char c =
     (case map_of (zip ascii_lowercase ascii_uppercase) c of Some d \<Rightarrow> d | None \<Rightarrow> c)"

definition lower :: "string \<Rightarrow> string" where
  "lower s = map lower_char s"

definition upper :: "string \<Rightarrow> string" where
  "upper s = map upper_char s"

section \<open>Data model\<close>

text \<open>
  A course is a dictionary read from the catalog. The keys \<^verbatim>\<open>code\<close> and \<^verbatim>\<open>name\<close>
  are indexed unconditionally by the source and are fields of the record; every key
  that the source reads with \<^verbatim>\<open>.get(key, default)\<close> or tests with \<^verbatim>\<open>in\<close> is an
  optional field, \<open>None\<close> when the key is absent.
\<close>

record course =
  code :: string
  name :: string
  credits :: "int option"
  tags :: "string list option"
  prerequisites :: "string list option"
  description :: "string option"
  semester :: "int option"
  difficulty_level :: "int option"

definition get_credits :: "course \<Rightarrow> int" where
  "get_credits c = (case credits c of None \<Rightarrow> 5 | Some k \<Rightarrow> k)"

definition get_tags :: "course \<Rightarrow> string list" where
  "get_tags c = (case tags c of None \<Rightarrow> [] | Some ts \<Rightarrow> ts)"

definition get_description :: "course \<Rightarrow> string" where
  "get_description c = (case description c of None \<Rightarrow> [] | Some d \<Rightarrow> d)"

definition get_semester :: "course \<Rightarrow> int" where
  "get_semester c = (case semester c of None \<Rightarrow> 0 | Some s \<Rightarrow> s)"

definition get_difficulty_level :: "course \<Rightarrow> int" where
  "get_difficulty_level c = (case difficulty_level c of None \<Rightarrow> 3 | Some d \<Rightarrow> d)"

text \<open>The caller's profile: a dictionary whose keys may all be absent.\<close>

record user_context =
  academic_year :: "string option"
  current_semester :: "string option"
  major :: "string option"
  target_program :: "string option"
  completed_courses :: "string list option"
  available_credits :: "int option"

datatype py_error =
  IndexError | ZeroDivisionError | OverflowError | CollaboratorError string

section \<open>Floating-point numbers\<close>

text \<open>
  A Python float is an IEEE-754 binary64 number and is modelled as the rational number
  it denotes. Every arithmetic operation returns the binary64 number nearest to the
  exact result, a tie going to the even significand: this is \<open>rnd\<close>, which scales
  the magnitude into the range of a 53-bit significand, rounds it to an integer and
  scales back. \<open>rnd\<close> does not limit the exponent. Overflow is checked where the
  source can raise, in the true division of two integers; the other operations of this
  program do not overflow on operands that passed that check, and no result reaches the
  subnormal range for lists of fewer than \<open>2 ^ 1000\<close> courses.
\<close>

definition round_half_even :: "rat \<Rightarrow> int" where
  "round_half_even x =
     (let f = \<lfloor>x\<rfloor>; d = x - of_int f in
      if d < 1 / 2 then f else if 1 / 2 < d then f + 1 else if even f then f else f + 1)"

text \<open>For \<open>a > 0\<close>, the integer \<open>e\<close> with \<open>2 ^ e \<le> a < 2 ^ (e + 1)\<close>.\<close>

definition binary_exponent :: "rat \<Rightarrow> int" where
  "binary_exponent a =
     (if 1 \<le> a then bitlen \<lfloor>a\<rfloor> - 1 else - bitlen (\<lceil>1 / a\<rceil> - 1))"

definition pow2 :: "int \<Rightarrow> rat" where
  "pow2 e = (if 0 \<le> e then 2 ^ nat e else 1 / 2 ^ nat (- e))"

definition rnd :: "rat \<Rightarrow> rat" where
  "rnd x =
     (if x = 0 then 0
      else (let a = \<bar>x\<bar>; e = binary_exponent a;
                m = round_half_even (a * pow2 (52 - e))
            in sgn x * (of_int m * pow2 (e - 52))))"

text \<open>A decimal literal such as \<^verbatim>\<open>0.6\<close>, and the operations on two floats.\<close>

definition float_lit :: "rat \<Rightarrow> rat" where
  "float_lit r = rnd r"

definition float_mul :: "rat \<Rightarrow> rat \<Rightarrow> rat" where
  "float_mul x y = rnd (x * y)"

definition float_add :: "rat \<Rightarrow> rat \<Rightarrow> rat" where
  "float_add x y = rnd (x + y)"

definition float_div :: "rat \<Rightarrow> rat \<Rightarrow> rat" where
  "float_div x y = rnd (x / y)"

text \<open>
  \<^verbatim>\<open>a / b\<close> on two integers: the correctly rounded quotient, \<^verbatim>\<open>ZeroDivisionError\<close>
  for a zero divisor and \<^verbatim>\<open>OverflowError\<close> when the quotient rounds beyond the
  largest binary64 number.
\<close>

definition double_overflow :: "rat \<Rightarrow> bool" where
  "double_overflow x \<longleftrightarrow> 2 ^ 1024 - 2 ^ 970 \<le> \<bar>x\<bar>"

definition int_true_div :: "int \<Rightarrow> int \<Rightarrow> py_error + rat" where
  "int_true_div a b =
     (if b = 0 then Inl ZeroDivisionError
      else if double_overflow (of_int a / of_int b) then Inl OverflowError
      else Inr (rnd (of_int a / of_int b)))"

section \<open>CourseService\<close>

definition subject_keywords :: "(string \<times> string list) list" where
  "subject_keywords =
    [(''eco'', [''eco'', ''economics'', ''micro'', ''macro'', ''economic'', ''econ'']),
     (''stat'', [''stat'', ''econometrics'', ''data'', ''statistics'', ''quantitative'', ''metrics'']),
     (''fin'', [''fin'', ''finance'', ''monetary'', ''financial'', ''banking'', ''investment'']),
     (''sustain'', [''sustain'', ''esg'', ''climate'', ''environmental'', ''development'']),
     (''math'', [''math'', ''maths'', ''calculus'', ''mathematical'', ''linear'', ''algebra''])]"

text \<open>
  \<^verbatim>\<open>_build_keyword_index\<close>: the outer loop runs over the catalog, the inner loop over
  the subject table; a course is appended to the bucket of every subject one of whose
  keywords is among the course's tags. The index is a dictionary that is only ever
  looked up by key, hence a map.
\<close>

fun index_course ::
  "course \<Rightarrow> (string \<times> string list) list \<Rightarrow> (string \<rightharpoonup> course list) \<Rightarrow> (string \<rightharpoonup> course list)"
where
  "index_course c [] idx = idx"
| "index_course c ((subject, keywords) # rest) idx =
     index_course c rest
       (if list_ex (\<lambda>tag. tag \<in> set keywords) (get_tags c)
        then idx(subject \<mapsto> (case idx subject of None \<Rightarrow> [] | Some bucket \<Rightarrow> bucket) @ [c])
        else idx)"

fun build_loop :: "course list \<Rightarrow> (string \<rightharpoonup> course list) \<Rightarrow> (string \<rightharpoonup> course list)" where
  "build_loop [] idx = idx"
| "build_loop (c # cs) idx = build_loop cs (index_course c subject_keywords idx)"

definition build_keyword_index :: "course list \<Rightarrow> (string \<rightharpoonup> course list)" where
  "build_keyword_index courses = build_loop courses Map.empty"

text \<open>
  \<^verbatim>\<open>results.sort(key=..., reverse=True)\<close>: Python's sort is stable also when reversed,
  that is, elements with equal keys keep their order. It is the stable ascending sort
  of the reversed list, reversed.
\<close>

definition sort_reverse :: "('a \<Rightarrow> 'k::linorder) \<Rightarrow> 'a list \<Rightarrow> 'a list" where
  "sort_reverse key xs = rev (sort_key key (rev xs))"

definition fuzzy_match :: "string \<Rightarrow> course \<Rightarrow> bool" where
  "fuzzy_match keyword c =
     (str_in keyword (lower (name c)) \<or>
      str_in keyword (lower (get_description c)) \<or>
      list_ex (\<lambda>tag. str_in keyword tag) (get_tags c))"

definition search_by_keyword :: "course list \<Rightarrow> string \<Rightarrow> course list" where
  "search_by_keyword courses keyword0 =
     (let keyword = lower keyword0 in
      case build_keyword_index courses keyword of
        Some bucket \<Rightarrow> bucket
      | None \<Rightarrow>
          (let results = filter (fuzzy_match keyword) courses;
               sorted_results =
                 sort_reverse
                   (\<lambda>x. (str_in keyword (lower (name x)), str_in keyword (lower (get_description x))))
                   results
           in take 10 sorted_results))"

fun get_course_by_code_loop :: "course list \<Rightarrow> string \<Rightarrow> course option" where
  "get_course_by_code_loop [] code_u = None"
| "get_course_by_code_loop (c # cs) code_u =
     (if upper (code c) = code_u then Some c else get_course_by_code_loop cs code_u)"

definition get_course_by_code :: "course list \<Rightarrow> string \<Rightarrow> course option" where
  "get_course_by_code courses code0 = get_course_by_code_loop courses (upper code0)"

definition get_prerequisites :: "course list \<Rightarrow> string \<Rightarrow> string list" where
  "get_prerequisites courses course_code =
     (case get_course_by_code courses course_code of
        Some c \<Rightarrow> (case prerequisites c of Some ps \<Rightarrow> ps | None \<Rightarrow> [])
      | None \<Rightarrow> [])"

definition check_prerequisites_met :: "course list \<Rightarrow> string \<Rightarrow> string list \<Rightarrow> bool" where
  "check_prerequisites_met courses course_code completed =
     list_all (\<lambda>prereq. prereq \<in> set completed) (get_prerequisites courses course_code)"

section \<open>PlanningService\<close>

definition CREDIT_LIMITS :: "(string \<times> int) list" where
  "CREDIT_LIMITS = [(''year_1'', 15), (''year_2'', 20), (''year_3'', 20), (''year_4'', 15)]"

record specialization_path =
  core_sequence :: "string list"
  recommended_electives :: "string list"
  career_paths :: "string list"

definition SPECIALIZATION_PATHS :: "(string \<times> specialization_path) list" where
  "SPECIALIZATION_PATHS =
    [(''quantitative_finance'',
       \<lparr>core_sequence = [''ECO205'', ''ECO214'', ''ECO302'', ''FIN301'', ''ECO305''],
        recommended_electives = [''ECO309'', ''ECO227'', ''MTH212''],
        career_paths = [''Quantitative Analyst'', ''Risk Management'', ''Asset Allocation'']\<rparr>),
     (''policy_analysis'',
       \<lparr>core_sequence = [''ECO213'', ''ECO216'', ''ECO225'', ''ECO305'', ''ECO321''],
        recommended_electives = [''ECO207'', ''ECO212'', ''POL201''],
        career_paths = [''Central Banking'', ''Policy Advisor'', ''International Organizations'']\<rparr>),
     (''sustainable_finance'',
       \<lparr>core_sequence = [''ECO307'', ''ECO311'', ''ECO305'', ''FIN301'', ''ECO225''],
        recommended_electives = [''ECO306'', ''ECO228'', ''ENV301''],
        career_paths = [''ESG Investment'', ''Sustainable Finance'', ''Impact Investing'']\<rparr>)]"

text \<open>\<^verbatim>\<open>SPECIALIZATION_PATHS.get(specialization, {}).get("core_sequence", [])\<close> and its sibling.\<close>

definition path_core_sequence :: "string \<Rightarrow> string list" where
  "path_core_sequence specialization =
     (case map_of SPECIALIZATION_PATHS specialization of
        None \<Rightarrow> [] | Some path \<Rightarrow> core_sequence path)"

definition path_electives :: "string \<Rightarrow> string list" where
  "path_electives specialization =
     (case map_of SPECIALIZATION_PATHS specialization of
        None \<Rightarrow> [] | Some path \<Rightarrow> recommended_electives path)"

text \<open>
  The service holds the course service (its catalog) and the academic calendar, a
  dictionary from academic year to semester to a dictionary of dates.
\<close>

record planning_service =
  course_service :: "course list"
  academic_calendar :: "string \<rightharpoonup> (string \<rightharpoonup> (string \<times> string) list)"

text \<open>
  The plan dictionary. \<^verbatim>\<open>calendar_dates\<close> is a key of a generated plan only and
  \<^verbatim>\<open>note\<close> a key of the default plan only.
\<close>

record plan =
  plan_academic_year :: string
  plan_semester :: string
  plan_specialization :: string
  plan_courses :: "course list"
  plan_total_credits :: int
  plan_workload_level :: string
  plan_career_alignment_score :: rat
  plan_gap_analysis :: "string list"
  plan_credit_limit :: int
  plan_calendar_dates :: "(string \<times> string) list option"
  plan_note :: "string option"

definition determine_specialization :: "string \<Rightarrow> string list \<Rightarrow> string" where
  "determine_specialization tp0 completed =
     (let tp = lower tp0 in
      if str_in ''hkU mfwm'' tp \<or> str_in ''family wealth'' tp then ''quantitative_finance''
      else if str_in ''policy'' tp \<or> str_in ''central bank'' tp then ''policy_analysis''
      else if str_in ''sustain'' tp \<or> str_in ''esg'' tp then ''sustainable_finance''
      else
        (let quantitative_courses = [''ECO205'', ''ECO214'', ''ECO302'', ''MTH212''];
             policy_courses = [''ECO213'', ''ECO216'', ''ECO225'', ''POL201''];
             quantitative_count = length (filter (\<lambda>c. c \<in> set quantitative_courses) completed);
             policy_count = length (filter (\<lambda>c. c \<in> set policy_courses) completed)
         in if quantitative_count > policy_count then ''quantitative_finance''
            else if policy_count > 0 then ''policy_analysis''
            else ''quantitative_finance''))"

fun resolve_courses :: "course list \<Rightarrow> string list \<Rightarrow> course list" where
  "resolve_courses catalog [] = []"
| "resolve_courses catalog (course_code # rest) =
     (case get_course_by_code catalog course_code of
        Some c \<Rightarrow> c # resolve_courses catalog rest
      | None \<Rightarrow> resolve_courses catalog rest)"

definition get_recommended_courses ::
  "course list \<Rightarrow> string \<Rightarrow> string \<Rightarrow> string \<Rightarrow> string list \<Rightarrow> course list" where
  "get_recommended_courses catalog specialization ay sem completed =
     (let core = path_core_sequence specialization;
          electives = path_electives specialization;
          all_courses = resolve_courses catalog (core @ electives);
          target_semester = (if lower sem = ''fall'' then 1 else 2);
          semester_courses =
            filter (\<lambda>c. (get_semester c = 0 \<or> get_semester c = target_semester) \<and>
                         check_prerequisites_met catalog (code c) completed) all_courses
      in sort_reverse (\<lambda>x. (code x \<in> set core, - get_credits x)) semester_courses)"

text \<open>
  \<^verbatim>\<open>_filter_courses\<close>: both loops carry the selected list and the remaining
  credits; the second loop leaves by \<^verbatim>\<open>break\<close> once fewer than 5 credits remain.
\<close>

fun first_pass :: "course list \<Rightarrow> string list \<Rightarrow> course list \<times> int \<Rightarrow> course list \<times> int" where
  "first_pass [] completed (selected, remaining) = (selected, remaining)"
| "first_pass (c # cs) completed (selected, remaining) =
     (if code c \<notin> set completed \<and> code c \<notin> set (map code selected)
      then (let course_credits = get_credits c in
            if course_credits \<le> remaining
            then first_pass cs completed (selected @ [c], remaining - course_credits)
            else first_pass cs completed (selected, remaining))
      else first_pass cs completed (selected, remaining))"

fun second_pass :: "course list \<Rightarrow> string list \<Rightarrow> course list \<times> int \<Rightarrow> course list \<times> int" where
  "second_pass [] completed (selected, remaining) = (selected, remaining)"
| "second_pass (c # cs) completed (selected, remaining) =
     (if code c \<notin> set completed \<and> code c \<notin> set (map code selected) \<and>
         get_credits c \<le> remaining
      then (if remaining - get_credits c < 5
            then (selected @ [c], remaining - get_credits c)
            else second_pass cs completed (selected @ [c], remaining - get_credits c))
      else second_pass cs completed (selected, remaining))"

definition filter_courses :: "course list \<Rightarrow> string list \<Rightarrow> int \<Rightarrow> course list" where
  "filter_courses recommended completed available =
     (case first_pass recommended completed ([], available) of
        (selected, remaining) \<Rightarrow>
          if remaining \<ge> 5 then fst (second_pass recommended completed (selected, remaining))
          else selected)"

definition get_academic_year :: "user_context \<Rightarrow> string" where
  "get_academic_year ctx = (case academic_year ctx of None \<Rightarrow> ''2025-2026'' | Some y \<Rightarrow> y)"

definition get_current_semester :: "user_context \<Rightarrow> string" where
  "get_current_semester ctx = (case current_semester ctx of None \<Rightarrow> ''Fall'' | Some s \<Rightarrow> s)"

definition get_completed_courses :: "user_context \<Rightarrow> string list" where
  "get_completed_courses ctx = (case completed_courses ctx of None \<Rightarrow> [] | Some cs \<Rightarrow> cs)"

definition get_available_credits :: "user_context \<Rightarrow> int" where
  "get_available_credits ctx = (case available_credits ctx of None \<Rightarrow> 20 | Some k \<Rightarrow> k)"

text \<open>\<^verbatim>\<open>s.split("-")[0]\<close>: the characters before the first hyphen.\<close>

definition first_segment :: "string \<Rightarrow> string" where
  "first_segment s = takeWhile (\<lambda>ch. ch \<noteq> CHR ''-'') s"

text \<open>
  \<^verbatim>\<open>_assess_workload\<close>. Indexing the first segment with \<^verbatim>\<open>[-1]\<close> raises
  \<^verbatim>\<open>IndexError\<close> when the segment is empty. The two quotients are true divisions
  of integers; the score is computed in floating-point arithmetic, in the order of the
  source.
\<close>

definition assess_workload :: "course list \<Rightarrow> user_context \<Rightarrow> py_error + string" where
  "assess_workload cs ctx =
     (let total_credits = sum_list (map get_credits cs);
          course_count = length cs;
          seg = first_segment (get_academic_year ctx)
      in if seg = [] then Inl IndexError
         else
          (let year_key = last seg;
               credit_limit =
                 (case map_of CREDIT_LIMITS (''year_'' @ [year_key]) of
                    None \<Rightarrow> 20 | Some l \<Rightarrow> l)
           in case int_true_div total_credits credit_limit of
                Inl e \<Rightarrow> Inl e
              | Inr credit_ratio \<Rightarrow>
                  (case int_true_div (sum_list (map get_difficulty_level cs))
                          (max (int course_count) 1) of
                     Inl e \<Rightarrow> Inl e
                   | Inr course_difficulty \<Rightarrow>
                       (let workload_score =
                              float_add (float_mul credit_ratio (float_lit (6 / 10)))
                                (float_mul (float_div course_difficulty 5) (float_lit (4 / 10)))
                        in Inr (if workload_score < float_lit (6 / 10) then ''light''
                                else if workload_score < float_lit (8 / 10) then ''moderate''
                                else ''heavy'')))))"

text \<open>
  \<^verbatim>\<open>_calculate_career_alignment\<close>. The two quotients divide a count of courses by
  a positive length; list lengths are far below the range in which such a division
  could overflow, so the quotient is rounded directly.
\<close>

definition calculate_career_alignment :: "course list \<Rightarrow> string \<Rightarrow> string \<Rightarrow> rat" where
  "calculate_career_alignment cs specialization tp =
     (if cs = [] then 0
      else
       (let core_courses = path_core_sequence specialization;
            core_coverage =
              rnd (of_nat (length (filter (\<lambda>c. code c \<in> set core_courses) cs))
                     / of_nat (max (length core_courses) 1));
            alignment =
              (if str_in ''HKU MFWM'' tp
               then (let quant_count =
                           length (filter (\<lambda>c. list_ex (\<lambda>tag. tag \<in> set [''fin'', ''stat'', ''math''])
                                            (get_tags c)) cs)
                     in float_add (float_mul (float_lit (6 / 10)) core_coverage)
                          (float_mul (float_lit (4 / 10))
                             (rnd (of_nat quant_count / of_nat (max (length cs) 1)))))
               else core_coverage)
        in min (max alignment 0) 1))"

fun join :: "string \<Rightarrow> string list \<Rightarrow> string" where
  "join sep [] = []"
| "join sep [x] = x"
| "join sep (x # y # ys) = x @ sep @ join sep (y # ys)"

definition identify_gaps :: "course list \<Rightarrow> string \<Rightarrow> string list \<Rightarrow> string list" where
  "identify_gaps selected_courses specialization completed =
     (let core = path_core_sequence specialization;
          selected_codes = map code selected_courses;
          missing_cores = filter (\<lambda>c. c \<notin> set completed \<and> c \<notin> set selected_codes) core;
          gaps1 =
            (if missing_cores \<noteq> []
             then [''Missing core courses: '' @ join '', '' (take 2 missing_cores)
                     @ (if length missing_cores > 2 then '' and others'' else [])]
             else []);
          has_quantitative =
            list_ex (\<lambda>c. list_ex (\<lambda>tag. tag \<in> set [''stat'', ''math'']) (get_tags c)) selected_courses;
          has_finance = list_ex (\<lambda>c. ''fin'' \<in> set (get_tags c)) selected_courses;
          gaps2 =
            (if specialization = ''quantitative_finance'' \<and> \<not> has_quantitative
             then [''Limited quantitative training - consider adding econometrics or mathematics courses'']
             else []);
          gaps3 =
            (if specialization = ''quantitative_finance'' \<and> \<not> has_finance
             then [''Limited finance exposure - consider adding monetary economics or business finance courses'']
             else [])
      in gaps1 @ gaps2 @ gaps3)"

definition get_default_plan :: "user_context \<Rightarrow> plan" where
  "get_default_plan ctx =
     \<lparr>plan_academic_year = get_academic_year ctx,
      plan_semester = get_current_semester ctx,
      plan_specialization = ''general_economics'',
      plan_courses =
        [\<lparr>code = ''ECO213'', name = ''Macroeconomics I'', credits = Some 5, tags = None,
          prerequisites = None, description = Some ''Core macroeconomics principles'',
          semester = None, difficulty_level = None\<rparr>,
         \<lparr>code = ''ECO217'', name = ''Microeconomics I'', credits = Some 5, tags = None,
          prerequisites = None, description = Some ''Core microeconomics principles'',
          semester = None, difficulty_level = None\<rparr>],
      plan_total_credits = 10,
      plan_workload_level = ''light'',
      plan_career_alignment_score = float_lit (6 / 10),
      plan_gap_analysis = [''Default plan used due to system constraints''],
      plan_credit_limit = get_available_credits ctx,
      plan_calendar_dates = None,
      plan_note = Some ''This is a default plan. For personalized recommendations, please ensure your academic profile is complete.''\<rparr>"

definition calendar_lookup ::
  "(string \<rightharpoonup> (string \<rightharpoonup> (string \<times> string) list)) \<Rightarrow> string \<Rightarrow> string \<Rightarrow> (string \<times> string) list" where
  "calendar_lookup cal ay sem =
     (case cal ay of None \<Rightarrow> []
      | Some by_semester \<Rightarrow> (case by_semester sem of None \<Rightarrow> [] | Some dates \<Rightarrow> dates))"

text \<open>
  The body of the \<^verbatim>\<open>try\<close> block of \<^verbatim>\<open>generate_semester_plan\<close>: \<open>Inl\<close> is an
  exception raised inside it.
\<close>

definition plan_body :: "planning_service \<Rightarrow> user_context \<Rightarrow> py_error + plan" where
  "plan_body svc ctx =
     (let ay = get_academic_year ctx;
          sem = get_current_semester ctx;
          tp = (case target_program ctx of None \<Rightarrow> [] | Some t \<Rightarrow> t);
          completed = get_completed_courses ctx;
          available = get_available_credits ctx;
          specialization = determine_specialization tp completed;
          recommended_courses =
            get_recommended_courses (course_service svc) specialization ay sem completed;
          filtered_courses = filter_courses recommended_courses completed available
      in case assess_workload filtered_courses ctx of
           Inl e \<Rightarrow> Inl e
         | Inr level \<Rightarrow>
             Inr \<lparr>plan_academic_year = ay,
                  plan_semester = sem,
                  plan_specialization = specialization,
                  plan_courses = filtered_courses,
                  plan_total_credits = sum_list (map get_credits filtered_courses),
                  plan_workload_level = level,
                  plan_career_alignment_score =
                    calculate_career_alignment filtered_courses specialization tp,
                  plan_gap_analysis = identify_gaps filtered_courses specialization completed,
                  plan_credit_limit = available,
                  plan_calendar_dates = Some (calendar_lookup (academic_calendar svc) ay sem),
                  plan_note = None\<rparr>)"

text \<open>\<^verbatim>\<open>except Exception\<close>: every exception of the body yields the default plan.\<close>

definition generate_semester_plan :: "planning_service \<Rightarrow> user_context \<Rightarrow> plan" where
  "generate_semester_plan svc ctx =
     (case plan_body svc ctx of Inl e \<Rightarrow> get_default_plan ctx | Inr p \<Rightarrow> p)"

section \<open>AIService\<close>

record ai_service =
  use_mock :: bool
  api_key :: string

text \<open>
  \<^verbatim>\<open>AIService.__init__\<close>: without an API key the service falls back to mock mode.
\<close>

definition init_ai_service :: "bool \<Rightarrow> string \<Rightarrow> ai_service" where
  "init_ai_service USE_MOCK_AI DEEPSEEK_API_KEY =
     \<lparr>use_mock = (if \<not> USE_MOCK_AI \<and> DEEPSEEK_API_KEY = [] then True else USE_MOCK_AI),
      api_key = DEEPSEEK_API_KEY\<rparr>"

text \<open>Decimal printing of integers, as an f-string does it.\<close>

definition digit_char :: "nat \<Rightarrow> char" where
  "digit_char n = ''0123456789'' ! n"

function str_nat :: "nat \<Rightarrow> string" where
  "str_nat n = (if n < 10 then [digit_char n] else str_nat (n div 10) @ [digit_char (n mod 10)])"
  by pat_completeness auto
termination
  by (relation "measure (\<lambda>n. n)") auto

declare str_nat.simps [simp del]

definition str_int :: "int \<Rightarrow> string" where
  "str_int i = (if i < 0 then CHR ''-'' # str_nat (nat (- i)) else str_nat (nat i))"

definition mock_planning_advice :: "plan \<Rightarrow> user_context \<Rightarrow> string \<Rightarrow> string" where
  "mock_planning_advice p user_profile original_query =
     (let target = (case target_program user_profile of None \<Rightarrow> ''graduate studies'' | Some t \<Rightarrow> t);
          total_credits = plan_total_credits p;
          course_count = length (plan_courses p)
      in if str_in ''HKU MFWM'' target
         then ''This semester plan provides strong preparation for HKU's Family Wealth Management program. ''
            @ ''The combination of quantitative courses (econometrics, mathematical finance) and applied finance modules ''
            @ ''builds the analytical foundation required for systematic wealth management. With ''
            @ str_int total_credits @ '' credits across '' @ str_nat course_count @ '' courses, ''
            @ ''the workload is well-balanced for sustained academic performance. Consider connecting with XJTLU's Career Hub to explore ''
            @ ''summer internships at private banks or family offices to complement this academic preparation.''
         else ''This balanced semester plan effectively combines theoretical foundations with practical applications. ''
            @ ''The '' @ str_int total_credits @ '' credit load across '' @ str_nat course_count
            @ '' courses provides comprehensive coverage while maintaining manageable workload. ''
            @ ''Focus on developing strong relationships with course instructors, as their mentorship and recommendation letters will be valuable for your future applications. ''
            @ ''Consider joining the XJTLU Economics Society to connect with peers sharing similar career aspirations.'')"

text \<open>
  \<^verbatim>\<open>_call_deepseek_api\<close> is the text-generation collaborator. Its outcome (the stripped
  content of the reply, or the exception raised by the transport, the status check or
  the reply's shape) is a parameter; the prompt passed to it is plain string
  formatting with no other consumer. Without an API key the call raises before any
  request is made.
\<close>

definition call_deepseek_api :: "ai_service \<Rightarrow> py_error + string \<Rightarrow> py_error + string" where
  "call_deepseek_api ai outcome =
     (if api_key ai = [] then Inl (CollaboratorError ''DeepSeek API key not configured'')
      else outcome)"

definition generate_planning_advice ::
  "ai_service \<Rightarrow> py_error + string \<Rightarrow> plan \<Rightarrow> user_context \<Rightarrow> string \<Rightarrow> string" where
  "generate_planning_advice ai outcome p user_profile original_query =
     (if use_mock ai then mock_planning_advice p user_profile original_query
      else case call_deepseek_api ai outcome of
             Inr content \<Rightarrow> content
           | Inl e \<Rightarrow> mock_planning_advice p user_profile original_query)"

section \<open>AcademicDispatcher\<close>

definition INTENT_KEYWORDS :: "(string \<times> string list) list" where
  "INTENT_KEYWORDS =
    [(''course_explanation'',
        [''explain'', ''what is'', ''about'', ''describe'', ''introduction'', ''tell me'', ''overview'']),
     (''semester_planning'',
        [''plan'', ''recommend'', ''suggest'', ''build'', ''design'', ''roadmap'', ''schedule'', ''timetable'']),
     (''career_alignment'',
        [''career'', ''job'', ''future'', ''hku'', ''kcl'', ''target'', ''path'', ''direction'']),
     (''prerequisite_check'',
        [''prerequisite'', ''before'', ''need to take'', ''require'', ''must take'', ''pre-req'']),
     (''workload_assessment'',
        [''workload'', ''difficult'', ''hard'', ''time'', ''balance'', ''manage'', ''hours'', ''effort''])]"

definition SUBJECT_KEYWORDS :: "(string \<times> string list) list" where
  "SUBJECT_KEYWORDS =
    [(''eco'', [''eco'', ''economics'', ''micro'', ''macro'', ''economic'', ''econ'']),
     (''stat'', [''stat'', ''econometrics'', ''data'', ''statistics'', ''quantitative'', ''regression'', ''metrics'']),
     (''fin'', [''fin'', ''finance'', ''monetary'', ''financial'', ''banking'', ''investment'', ''wealth'']),
     (''sustain'', [''sustain'', ''esg'', ''climate'', ''environmental'', ''development'', ''green'', ''social'']),
     (''math'', [''math'', ''maths'', ''calculus'', ''mathematical'', ''linear'', ''algebra'', ''probability''])]"

text \<open>
  \<^verbatim>\<open>_detect_intent\<close>: the loop over the dictionary in its declaration order,
  returning at the first intent with a keyword in the query.
\<close>

fun detect_intent_loop :: "(string \<times> string list) list \<Rightarrow> string \<Rightarrow> string" where
  "detect_intent_loop [] query = ''general_query''"
| "detect_intent_loop ((intent, keywords) # rest) query =
     (if list_ex (\<lambda>keyword. str_in keyword query) keywords then intent
      else detect_intent_loop rest query)"

definition detect_intent :: "string \<Rightarrow> string" where
  "detect_intent query = detect_intent_loop INTENT_KEYWORDS query"

definition extract_subject_keywords :: "string \<Rightarrow> string list" where
  "extract_subject_keywords query =
     map fst (filter (\<lambda>(subject, keywords). list_ex (\<lambda>keyword. str_in keyword query) keywords)
                SUBJECT_KEYWORDS)"

text \<open>A response is a dictionary from keys to JSON-like values.\<close>

datatype jvalue =
    JStr string
  | JInt int
  | JNum rat
  | JBool bool
  | JStrs "string list"
  | JCourses "course list"

type_synonym response = "(string \<times> jvalue) list"

record dispatcher =
  disp_planning_service :: planning_service
  disp_ai_service :: ai_service

text \<open>
  \<^verbatim>\<open>_handle_semester_planning\<close>. On the types of this model no step of its
  \<^verbatim>\<open>try\<close> block raises: plan generation catches its own exceptions, the advice
  generation catches the collaborator's, and every key read from the plan is present.
  The \<^verbatim>\<open>except\<close> branch, which builds an error-typed response, therefore has no
  counterpart here.
\<close>

definition handle_semester_planning ::
  "dispatcher \<Rightarrow> py_error + string \<Rightarrow> user_context \<Rightarrow> string \<Rightarrow> response" where
  "handle_semester_planning d outcome ctx original_query =
     (let p = generate_semester_plan (disp_planning_service d) ctx;
          advice = generate_planning_advice (disp_ai_service d) outcome p ctx original_query
      in [(''type'', JStr ''semester_plan''),
          (''recommended_courses'', JCourses (plan_courses p)),
          (''total_credits'', JInt (plan_total_credits p)),
          (''workload_assessment'', JStr (plan_workload_level p)),
          (''strategic_advice'', JStr advice),
          (''gap_analysis'', JStrs (plan_gap_analysis p)),
          (''career_alignment'', JNum (plan_career_alignment_score p)),
          (''academic_year'', JStr (get_academic_year ctx)),
          (''semester'', JStr (get_current_semester ctx))])"

text \<open>\<^verbatim>\<open>str.strip()\<close> on the ASCII whitespace characters.\<close>

definition is_space :: "char \<Rightarrow> bool" where
  "is_space c \<longleftrightarrow>
     c \<in> set [CHR 0x09, CHR 0x0A, CHR 0x0B, CHR 0x0C, CHR 0x0D,
              CHR 0x1C, CHR 0x1D, CHR 0x1E, CHR 0x1F, CHR '' '']"

definition strip :: "string \<Rightarrow> string" where
  "strip s = rev (dropWhile is_space (rev (dropWhile is_space s)))"

text \<open>
  \<^verbatim>\<open>dispatch\<close>: normalisation, intent detection, subject extraction and routing.
  The handlers of the four other intents and of the general query are the parameter
  \<open>others\<close>, which receives the intent, the subjects, the profile and the normalised
  query.
\<close>

definition dispatch ::
  "dispatcher \<Rightarrow> py_error + string \<Rightarrow>
   (string \<Rightarrow> string list \<Rightarrow> user_context \<Rightarrow> string \<Rightarrow> response) \<Rightarrow>
   string \<Rightarrow> user_context \<Rightarrow> response" where
  "dispatch d outcome others query ctx =
     (let normalized_query = strip (lower query);
          intent = detect_intent normalized_query;
          subjects = extract_subject_keywords normalized_query
      in if intent = ''course_explanation'' \<and> subjects \<noteq> []
         then others intent subjects ctx normalized_query
         else if intent = ''semester_planning''
         then handle_semester_planning d outcome ctx normalized_query
         else others intent subjects ctx normalized_query)"

section \<open>The workload rule in the words of the specification\<close>

text \<open>
  The specification's rule, for comparison with \<open>assess_workload\<close>, written on the
  fields of the course records: the credit limit by the year digit; the total of the
  credits, a course without credits counting 5; the mean of the difficulty levels, a
  course without a difficulty level counting 3; the score from the credit ratio and
  the mean difficulty; and the level by the two thresholds, in the same floating-point
  arithmetic. The mean of no courses is taken as 0.
\<close>

definition spec_credit_limit :: "char \<Rightarrow> int" where
  "spec_credit_limit digit =
     (if digit = CHR ''1'' then 15
      else if digit = CHR ''2'' then 20
      else if digit = CHR ''3'' then 20
      else if digit = CHR ''4'' then 15
      else 20)"

definition spec_total_credits :: "course list \<Rightarrow> int" where
  "spec_total_credits cs =
     sum_list (map (\<lambda>c. case credits c of None \<Rightarrow> 5 | Some k \<Rightarrow> k) cs)"

definition spec_difficulty_sum :: "course list \<Rightarrow> int" where
  "spec_difficulty_sum cs =
     sum_list (map (\<lambda>c. case difficulty_level c of None \<Rightarrow> 3 | Some d \<Rightarrow> d) cs)"

definition spec_avg_difficulty :: "course list \<Rightarrow> rat" where
  "spec_avg_difficulty cs =
     (if cs = [] then 0
      else rnd (of_int (spec_difficulty_sum cs) / of_nat (length cs)))"

definition spec_workload_score :: "course list \<Rightarrow> int \<Rightarrow> rat" where
  "spec_workload_score cs creditLimit =
     float_add
       (float_mul (float_lit (6 / 10))
          (rnd (of_int (spec_total_credits cs) / of_int creditLimit)))
       (float_mul (float_lit (4 / 10)) (float_div (spec_avg_difficulty cs) 5))"

definition spec_workload_level :: "rat \<Rightarrow> string" where
  "spec_workload_level score =
     (if score < float_lit (6 / 10) then ''light''
      else if score < float_lit (8 / 10) then ''moderate''
      else ''heavy'')"

section \<open>Example inputs\<close>

text \<open>
  A small catalog with the econometrics chain ECO205, ECO214, ECO302 (each the
  prerequisite of the next), two finance courses and one mathematics elective, and a
  profile aiming at the wealth-management programme with 15 credits in the fall
  semester.
\<close>

definition c_ECO205 :: course where
  "c_ECO205 =
     \<lparr>code = ''ECO205'', name = ''Statistics for Economics'', credits = None,
      tags = Some [''stat'', ''math''], prerequisites = None,
      description = Some ''Probability and inference'', semester = None,
      difficulty_level = None\<rparr>"

definition c_ECO214 :: course where
  "c_ECO214 =
     \<lparr>code = ''ECO214'', name = ''Econometrics I'', credits = Some 5,
      tags = Some [''stat''], prerequisites = Some [''ECO205''],
      description = Some ''Regression analysis'', semester = Some 0,
      difficulty_level = Some 4\<rparr>"

definition c_ECO302 :: course where
  "c_ECO302 =
     \<lparr>code = ''ECO302'', name = ''Econometrics II'', credits = Some 5,
      tags = Some [''stat''], prerequisites = Some [''ECO214''],
      description = None, semester = Some 1, difficulty_level = Some 4\<rparr>"

definition c_FIN301 :: course where
  "c_FIN301 =
     \<lparr>code = ''FIN301'', name = ''Business Finance'', credits = Some 5,
      tags = Some [''fin''], prerequisites = Some [],
      description = Some ''Corporate finance and valuation'', semester = Some 1,
      difficulty_level = Some 3\<rparr>"

definition c_ECO305 :: course where
  "c_ECO305 =
     \<lparr>code = ''ECO305'', name = ''Monetary Economics'', credits = Some 5,
      tags = Some [''fin'', ''eco''], prerequisites = None,
      description = Some ''Monetary policy transmission'', semester = Some 0,
      difficulty_level = Some 3\<rparr>"

definition c_MTH212 :: course where
  "c_MTH212 =
     \<lparr>code = ''MTH212'', name = ''Linear Algebra'', credits = Some 5,
      tags = Some [''math''], prerequisites = None,
      description = None, semester = Some 2, difficulty_level = Some 4\<rparr>"

definition demo_catalog :: "course list" where
  "demo_catalog = [c_ECO205, c_ECO214, c_ECO302, c_FIN301, c_ECO305, c_MTH212]"

definition demo_service :: planning_service where
  "demo_service = \<lparr>course_service = demo_catalog, academic_calendar = Map.empty\<rparr>"

definition blank_year_profile :: user_context where
  "blank_year_profile =
     \<lparr>academic_year = Some '''', current_semester = Some ''Spring'', major = None,
      target_program = Some ''central bank policy'', completed_courses = Some [],
      available_credits = Some 20\<rparr>"

definition demo_profile :: user_context where
  "demo_profile =
     \<lparr>academic_year = Some ''2025-2026'', current_semester = Some ''Fall'', major = None,
      target_program = Some ''HKU MFWM'', completed_courses = Some [],
      available_credits = Some 15\<rparr>"

text \<open>A catalog of eleven courses that all carry the tag \<open>eco\<close>.\<close>

definition eco_course :: "string \<Rightarrow> course" where
  "eco_course k =
     \<lparr>code = k, name = ''Topics in Economics'', credits = Some 5, tags = Some [''eco''],
      prerequisites = None, description = None, semester = None, difficulty_level = None\<rparr>"

definition eleven_eco_courses :: "course list" where
  "eleven_eco_courses =
     map eco_course [''ECO101'', ''ECO102'', ''ECO103'', ''ECO104'', ''ECO105'', ''ECO106'',
                     ''ECO107'', ''ECO108'', ''ECO109'', ''ECO110'', ''ECO111'']"

text \<open>
  A dispatcher over the example service whose text-generation collaborator is switched
  on (an API key is configured), and handlers for the other intents that return the
  empty dictionary.
\<close>

definition demo_dispatcher :: dispatcher where
  "demo_dispatcher =
     \<lparr>disp_planning_service = demo_service,
      disp_ai_service = init_ai_service False ''sk-demo''\<rparr>"

definition no_other_handlers :: "string \<Rightarrow> string list \<Rightarrow> user_context \<Rightarrow> string \<Rightarrow> response" where
  "no_other_handlers intent subjects ctx query = []"

section \<open>Evaluation of the example inputs\<close>

lemmas case_defs =
  lower_def lower_char_def upper_def upper_char_def ascii_uppercase_def ascii_lowercase_def

lemmas demo_course_defs =
  c_ECO205_def c_ECO214_def c_ECO302_def c_FIN301_def c_ECO305_def c_MTH212_def

lemma demo_codes:
  "code c_ECO205 = ''ECO205''" "code c_ECO214 = ''ECO214''" "code c_ECO302 = ''ECO302''"
  "code c_FIN301 = ''FIN301''" "code c_ECO305 = ''ECO305''" "code c_MTH212 = ''MTH212''"
  by (simp_all add: demo_course_defs)

lemma demo_lookup:
  "get_course_by_code demo_catalog ''ECO205'' = Some c_ECO205"
  "get_course_by_code demo_catalog ''ECO214'' = Some c_ECO214"
  "get_course_by_code demo_catalog ''ECO302'' = Some c_ECO302"
  "get_course_by_code demo_catalog ''FIN301'' = Some c_FIN301"
  "get_course_by_code demo_catalog ''ECO305'' = Some c_ECO305"
  "get_course_by_code demo_catalog ''MTH212'' = Some c_MTH212"
  "get_course_by_code demo_catalog ''ECO309'' = None"
  "get_course_by_code demo_catalog ''ECO227'' = None"
  "get_course_by_code demo_catalog ''eco302'' = Some c_ECO302"
  "get_course_by_code demo_catalog ''XYZ999'' = None"
  by (simp_all add: get_course_by_code_def demo_catalog_def demo_codes case_defs)

lemma demo_semesters:
  "get_semester c_ECO205 = 0" "get_semester c_ECO214 = 0" "get_semester c_ECO302 = 1"
  "get_semester c_FIN301 = 1" "get_semester c_ECO305 = 0" "get_semester c_MTH212 = 2"
  by (simp_all add: get_semester_def demo_course_defs)

lemma demo_credits:
  "get_credits c_ECO205 = 5" "get_credits c_ECO214 = 5" "get_credits c_ECO302 = 5"
  "get_credits c_FIN301 = 5" "get_credits c_ECO305 = 5" "get_credits c_MTH212 = 5"
  by (simp_all add: get_credits_def demo_course_defs)

lemma demo_difficulty:
  "get_difficulty_level c_ECO205 = 3" "get_difficulty_level c_FIN301 = 3" "get_difficulty_level c_ECO305 = 3"
  by (simp_all add: get_difficulty_level_def demo_course_defs)

section \<open>Facts about the floating-point model\<close>

lemma rnd_zero: "rnd 0 = 0"
  by (simp add: rnd_def)

lemma float_literals:
  "float_lit (6 / 10) = 5404319552844595 / 9007199254740992"
  "float_lit (4 / 10) = 3602879701896397 / 9007199254740992"
  "float_lit (8 / 10) = 3602879701896397 / 4503599627370496"
  by code_simp+

lemma quotient_bound:
  fixes a b :: int
  assumes "\<bar>a\<bar> < 2 ^ 1000" and "b \<noteq> 0"
  shows "\<bar>(of_int a :: rat) / of_int b\<bar> < 2 ^ 1024 - 2 ^ 970"
proof -
  from assms(2) have "1 \<le> \<bar>b\<bar>" by simp
  then have b1: "(1 :: rat) \<le> of_int \<bar>b\<bar>" by (simp only: of_int_1_le_iff)
  have a0: "(0 :: rat) \<le> of_int \<bar>a\<bar>" by simp
  have "\<bar>(of_int a :: rat) / of_int b\<bar> = of_int \<bar>a\<bar> / of_int \<bar>b\<bar>"
    by (simp add: abs_divide)
  also have "\<dots> \<le> of_int \<bar>a\<bar> / 1"
    using a0 b1 by (intro divide_left_mono) simp_all
  also have "\<dots> = of_int \<bar>a\<bar>" by simp
  also from assms(1) have "(of_int \<bar>a\<bar> :: rat) < of_int (2 ^ 1000)"
    by (simp only: of_int_less_iff)
  also have "(of_int (2 ^ 1000) :: rat) \<le> 2 ^ 1024 - 2 ^ 970" by simp
  finally show ?thesis .
qed

lemma no_overflow:
  assumes "\<bar>a\<bar> < 2 ^ 1000" and "b \<noteq> 0"
  shows "\<not> double_overflow (of_int a / of_int b)"
  using quotient_bound [OF assms] by (simp only: double_overflow_def not_le)

lemma int_true_div_rounds:
  assumes "\<bar>a\<bar> < 2 ^ 1000" and "b \<noteq> 0"
  shows "int_true_div a b = Inr (rnd (of_int a / of_int b))"
  using assms no_overflow [OF assms] by (simp add: int_true_div_def)

section \<open>Prerequisite checks\<close>

text \<open>
  C10. A course code that is absent from the catalog has the empty prerequisite list,
  and the check over the empty list is true: an unknown course is always reported as
  having its prerequisites met, whatever the completed courses are.
\<close>

theorem unknown_course_prerequisites_met:
  assumes "get_course_by_code catalog course_code = None"
  shows "get_prerequisites catalog course_code = [] \<and>
         check_prerequisites_met catalog course_code completed"
  using assms by (simp add: check_prerequisites_met_def get_prerequisites_def)

theorem unknown_course_prerequisites_met_witness:
  "get_course_by_code demo_catalog ''XYZ999'' = None \<and>
   get_prerequisites demo_catalog ''XYZ999'' = [] \<and>
   check_prerequisites_met demo_catalog ''XYZ999'' []"
  using unknown_course_prerequisites_met [OF demo_lookup(10), of "[]"] demo_lookup(10)
  by simp



section \<open>Workload assessment\<close>

lemma credit_limit_lookup:
  "(case map_of CREDIT_LIMITS (''year_'' @ [year_key]) of None \<Rightarrow> 20 | Some l \<Rightarrow> l)
     = spec_credit_limit year_key"
  by (simp add: CREDIT_LIMITS_def spec_credit_limit_def)

lemma spec_credit_limit_nonzero: "spec_credit_limit year_key \<noteq> 0"
  by (simp add: spec_credit_limit_def)

lemma total_credits_sum: "sum_list (map get_credits cs) = spec_total_credits cs"
  by (induction cs) (simp_all add: spec_total_credits_def get_credits_def)

lemma difficulty_sum: "sum_list (map get_difficulty_level cs) = spec_difficulty_sum cs"
  by (induction cs) (simp_all add: spec_difficulty_sum_def get_difficulty_level_def)

lemma course_difficulty_mean:
  assumes "\<bar>spec_difficulty_sum cs\<bar> < 2 ^ 1000"
  shows "int_true_div (sum_list (map get_difficulty_level cs)) (max (int (length cs)) 1)
           = Inr (spec_avg_difficulty cs)"
proof (cases cs)
  case Nil
  then show ?thesis
    by (simp add: int_true_div_def double_overflow_def spec_avg_difficulty_def rnd_zero)
next
  case (Cons c cs')
  then have m: "max (int (length cs)) 1 = int (length cs)" and nz: "int (length cs) \<noteq> 0"
    by simp_all
  from Cons have ne: "cs \<noteq> []" by simp
  show ?thesis
    unfolding m difficulty_sum using int_true_div_rounds [OF assms nz] ne
    by (simp add: spec_avg_difficulty_def)
qed

lemma year_2025: "first_segment ''2025-2026'' = ''2025''"
  by (simp add: first_segment_def)

lemma assess_workload_blank:
  "first_segment (get_academic_year ctx) = [] \<Longrightarrow> assess_workload cs ctx = Inl IndexError"
  by (simp add: assess_workload_def Let_def)

lemma assess_workload_spec:
  assumes "first_segment (get_academic_year ctx) \<noteq> []"
    and "\<bar>spec_total_credits cs\<bar> < 2 ^ 1000"
    and "\<bar>spec_difficulty_sum cs\<bar> < 2 ^ 1000"
  shows "assess_workload cs ctx =
           Inr (spec_workload_level
                 (spec_workload_score cs
                   (spec_credit_limit (last (first_segment (get_academic_year ctx))))))"
proof -
  let ?L = "spec_credit_limit (last (first_segment (get_academic_year ctx)))"
  have ratio: "int_true_div (sum_list (map get_credits cs)) ?L
                 = Inr (rnd (of_int (spec_total_credits cs) / of_int ?L))"
    unfolding total_credits_sum
    using assms(2) spec_credit_limit_nonzero by (rule int_true_div_rounds)
  have score:
    "float_add
       (float_mul (rnd (of_int (spec_total_credits cs) / of_int ?L)) (float_lit (6 / 10)))
       (float_mul (float_div (spec_avg_difficulty cs) 5) (float_lit (4 / 10)))
     = spec_workload_score cs ?L"
    by (simp only: spec_workload_score_def float_add_def float_mul_def mult.commute)
  show ?thesis
    using assms(1)
    by (simp only: assess_workload_def Let_def credit_limit_lookup ratio
          course_difficulty_mean [OF assms(3)] sum.case score spec_workload_level_def if_False)
qed

text \<open>
  C6, as the code has it. For every list of selected courses and every profile:
  when the first hyphen-segment of the academic-year string is empty, no level is
  computed and IndexError is raised. When it is not empty and the credit sum and the
  difficulty sum are within the range of a float (below \<open>2 ^ 1000\<close> in magnitude),
  the workload level is the level of the specification's rule: the credit limit is
  looked up from the last character of that segment (1 gives 15, 2 gives 20, 3 gives
  20, 4 gives 15, any other character 20), the score is 0.6 times total credits over
  the limit plus 0.4 times a fifth of the mean difficulty (3 for a course without a
  difficulty level), computed in floating-point arithmetic, and the level is light
  below 0.6, moderate below 0.8 and heavy otherwise. For the year "2025-2026" the
  character is 5 and the limit is the default 20.
\<close>

theorem assess_workload_rule:
  "(first_segment (get_academic_year ctx) = [] \<longrightarrow>
      assess_workload cs ctx = Inl IndexError) \<and>
   (first_segment (get_academic_year ctx) \<noteq> [] \<and>
    \<bar>spec_total_credits cs\<bar> < 2 ^ 1000 \<and> \<bar>spec_difficulty_sum cs\<bar> < 2 ^ 1000 \<longrightarrow>
      assess_workload cs ctx =
        Inr (spec_workload_level
              (spec_workload_score cs
                (spec_credit_limit (last (first_segment (get_academic_year ctx))))))) \<and>
   (get_academic_year ctx = ''2025-2026'' \<and>
    \<bar>spec_total_credits cs\<bar> < 2 ^ 1000 \<and> \<bar>spec_difficulty_sum cs\<bar> < 2 ^ 1000 \<longrightarrow>
      last (first_segment (get_academic_year ctx)) = CHR ''5'' \<and>
      assess_workload cs ctx = Inr (spec_workload_level (spec_workload_score cs 20)))"
proof (intro conjI impI)
  assume "first_segment (get_academic_year ctx) = []"
  then show "assess_workload cs ctx = Inl IndexError"
    by (rule assess_workload_blank)
next
  assume "first_segment (get_academic_year ctx) \<noteq> [] \<and>
    \<bar>spec_total_credits cs\<bar> < 2 ^ 1000 \<and> \<bar>spec_difficulty_sum cs\<bar> < 2 ^ 1000"
  then show "assess_workload cs ctx =
        Inr (spec_workload_level
              (spec_workload_score cs
                (spec_credit_limit (last (first_segment (get_academic_year ctx))))))"
    using assess_workload_spec by blast
next
  assume a: "get_academic_year ctx = ''2025-2026'' \<and>
    \<bar>spec_total_credits cs\<bar> < 2 ^ 1000 \<and> \<bar>spec_difficulty_sum cs\<bar> < 2 ^ 1000"
  then show "last (first_segment (get_academic_year ctx)) = CHR ''5''"
    by (simp add: year_2025)
next
  assume a: "get_academic_year ctx = ''2025-2026'' \<and>
    \<bar>spec_total_credits cs\<bar> < 2 ^ 1000 \<and> \<bar>spec_difficulty_sum cs\<bar> < 2 ^ 1000"
  then have seg: "first_segment (get_academic_year ctx) \<noteq> []"
    by (simp add: year_2025)
  have l: "spec_credit_limit (last (first_segment (get_academic_year ctx))) = 20"
    using a by (simp add: year_2025 spec_credit_limit_def)
  from a assess_workload_spec [OF seg, of cs] l
  show "assess_workload cs ctx = Inr (spec_workload_level (spec_workload_score cs 20))"
    by simp
qed

lemma workload_sums:
  "spec_total_credits [c_ECO205, c_FIN301, c_ECO305] = 15"
  "spec_difficulty_sum [c_ECO205, c_FIN301, c_ECO305] = 9"
  "spec_total_credits [c_ECO205\<lparr>credits := Some 4\<rparr>, c_FIN301, c_ECO305] = 14"
  "spec_difficulty_sum [c_ECO205\<lparr>credits := Some 4\<rparr>, c_FIN301, c_ECO305] = 9"
  "spec_total_credits [c_ECO214, c_ECO302] = 10"
  "spec_difficulty_sum [c_ECO214, c_ECO302] = 8"
  by (simp_all add: spec_total_credits_def spec_difficulty_sum_def demo_course_defs)

lemma workload_examples:
  "spec_workload_level (spec_workload_score [c_ECO205, c_FIN301, c_ECO305] 20) = ''moderate''"
  "spec_workload_level (spec_workload_score [c_ECO205, c_FIN301, c_ECO305] 15) = ''heavy''"
  "spec_workload_level
     (spec_workload_score [c_ECO205\<lparr>credits := Some 4\<rparr>, c_FIN301, c_ECO305] 15) = ''moderate''"
  "spec_workload_level (spec_workload_score [c_ECO214, c_ECO302] 20) = ''moderate''"
  by code_simp+

lemma mean_examples:
  "spec_avg_difficulty [c_ECO214, c_ECO302] = 4"
  "spec_avg_difficulty [c_ECO205, c_ECO214] = 7 / 2"
  by code_simp+

lemma demo_workload:
  "assess_workload [c_ECO205, c_FIN301, c_ECO305] demo_profile = Inr ''moderate''"
proof -
  have y: "get_academic_year demo_profile = ''2025-2026''"
    by (simp add: get_academic_year_def demo_profile_def)
  have h: "first_segment (get_academic_year demo_profile) \<noteq> []"
    by (simp add: y year_2025)
  have b: "\<bar>spec_total_credits [c_ECO205, c_FIN301, c_ECO305]\<bar> < 2 ^ 1000"
    "\<bar>spec_difficulty_sum [c_ECO205, c_FIN301, c_ECO305]\<bar> < 2 ^ 1000"
    by (simp_all only: workload_sums) simp_all
  have l: "spec_credit_limit (last ''2025'') = 20"
    by (simp add: spec_credit_limit_def)
  from assess_workload_spec [OF h b]
  show ?thesis by (simp only: y year_2025 l workload_examples)
qed

text \<open>
  The witness of the workload rule. An empty academic-year string raises IndexError.
  Two courses of difficulty 4 with 10 credits are a moderate load in "2025-2026"
  (limit 20, mean difficulty 4, score 0.62); with the difficulty 3 they would be a
  light one (score 0.54). A course without a difficulty level and a course of
  difficulty 4 have the mean 3.5. The three selected courses of the example (15
  credits, difficulty 3 each) are a moderate load in "2025-2026" and a heavy one in
  "2021-2022" (limit 15). With 14 credits at the limit 15 the score is the float just
  below 0.8, so the level is moderate.
\<close>

theorem assess_workload_rule_witness:
  "first_segment (get_academic_year blank_year_profile) = [] \<and>
   assess_workload [c_ECO214, c_ECO302] blank_year_profile = Inl IndexError \<and>
   first_segment (get_academic_year demo_profile) \<noteq> [] \<and>
   get_academic_year demo_profile = ''2025-2026'' \<and>
   spec_total_credits [c_ECO214, c_ECO302] = 10 \<and>
   spec_avg_difficulty [c_ECO214, c_ECO302] = 4 \<and>
   spec_avg_difficulty [c_ECO205, c_ECO214] = 7 / 2 \<and>
   assess_workload [c_ECO214, c_ECO302] demo_profile = Inr ''moderate'' \<and>
   assess_workload [c_ECO205, c_FIN301, c_ECO305] demo_profile = Inr ''moderate'' \<and>
   assess_workload [c_ECO205, c_FIN301, c_ECO305]
     (demo_profile\<lparr>academic_year := Some ''2021-2022''\<rparr>) = Inr ''heavy'' \<and>
   spec_total_credits [c_ECO205\<lparr>credits := Some 4\<rparr>, c_FIN301, c_ECO305] = 14 \<and>
   assess_workload [c_ECO205\<lparr>credits := Some 4\<rparr>, c_FIN301, c_ECO305]
     (demo_profile\<lparr>academic_year := Some ''2021-2022''\<rparr>) = Inr ''moderate''"
proof -
  let ?ctx1 = "demo_profile\<lparr>academic_year := Some ''2021-2022''\<rparr>"
  let ?cs = "[c_ECO205, c_FIN301, c_ECO305]"
  let ?cs14 = "[c_ECO205\<lparr>credits := Some 4\<rparr>, c_FIN301, c_ECO305]"
  let ?cs10 = "[c_ECO214, c_ECO302]"
  have y: "get_academic_year demo_profile = ''2025-2026''"
    "get_academic_year ?ctx1 = ''2021-2022''"
    by (simp_all add: get_academic_year_def demo_profile_def)
  have seg: "first_segment ''2021-2022'' = ''2021''"
    by (simp add: first_segment_def)
  have h0: "first_segment (get_academic_year blank_year_profile) = []"
    by (simp add: get_academic_year_def blank_year_profile_def first_segment_def)
  have h1: "first_segment (get_academic_year demo_profile) \<noteq> []"
    by (simp add: y year_2025)
  have h2: "first_segment (get_academic_year ?ctx1) \<noteq> []"
    by (simp add: y seg)
  have b: "\<bar>spec_total_credits ?cs\<bar> < 2 ^ 1000" "\<bar>spec_difficulty_sum ?cs\<bar> < 2 ^ 1000"
    "\<bar>spec_total_credits ?cs14\<bar> < 2 ^ 1000" "\<bar>spec_difficulty_sum ?cs14\<bar> < 2 ^ 1000"
    "\<bar>spec_total_credits ?cs10\<bar> < 2 ^ 1000" "\<bar>spec_difficulty_sum ?cs10\<bar> < 2 ^ 1000"
    by (simp_all only: workload_sums) simp_all
  have l: "spec_credit_limit (last ''2025'') = 20" "spec_credit_limit (last ''2021'') = 15"
    by (simp_all add: spec_credit_limit_def)
  from assess_workload_rule [of blank_year_profile ?cs10] h0
  have r0: "assess_workload ?cs10 blank_year_profile = Inl IndexError"
    by blast
  from assess_workload_rule [of demo_profile ?cs10] h1 b(5) b(6)
  have "assess_workload ?cs10 demo_profile =
          Inr (spec_workload_level (spec_workload_score ?cs10
                 (spec_credit_limit (last (first_segment (get_academic_year demo_profile))))))"
    by blast
  then have r10: "assess_workload ?cs10 demo_profile = Inr ''moderate''"
    by (simp only: y year_2025 l workload_examples)
  from assess_workload_rule [of demo_profile ?cs] h1 b(1) b(2)
  have "assess_workload ?cs demo_profile =
          Inr (spec_workload_level (spec_workload_score ?cs
                 (spec_credit_limit (last (first_segment (get_academic_year demo_profile))))))"
    by blast
  then have r1: "assess_workload ?cs demo_profile = Inr ''moderate''"
    by (simp only: y year_2025 l workload_examples)
  from assess_workload_rule [of ?ctx1 ?cs] h2 b(1) b(2)
  have "assess_workload ?cs ?ctx1 =
          Inr (spec_workload_level (spec_workload_score ?cs
                 (spec_credit_limit (last (first_segment (get_academic_year ?ctx1))))))"
    by blast
  then have r2: "assess_workload ?cs ?ctx1 = Inr ''heavy''"
    by (simp only: y seg l workload_examples)
  from assess_workload_rule [of ?ctx1 ?cs14] h2 b(3) b(4)
  have "assess_workload ?cs14 ?ctx1 =
          Inr (spec_workload_level (spec_workload_score ?cs14
                 (spec_credit_limit (last (first_segment (get_academic_year ?ctx1))))))"
    by blast
  then have r3: "assess_workload ?cs14 ?ctx1 = Inr ''moderate''"
    by (simp only: y seg l workload_examples)
  from h0 r0 h1 y(1) workload_sums(5) mean_examples r10 r1 r2 workload_sums(3) r3
  show ?thesis by blast
qed

text \<open>
  The claim as stated fails for a profile whose academic-year string has an empty
  first segment: no credit limit is looked up, the default 20 included, and no level
  is returned.
\<close>

theorem empty_year_segment_counterexample:
  "get_academic_year blank_year_profile = '''' \<and>
   assess_workload [c_ECO205, c_FIN301, c_ECO305] blank_year_profile = Inl IndexError \<and>
   assess_workload [c_ECO205, c_FIN301, c_ECO305] blank_year_profile
     \<noteq> Inr (spec_workload_level (spec_workload_score [c_ECO205, c_FIN301, c_ECO305] 20))"
  by (simp add: assess_workload_def Let_def get_academic_year_def blank_year_profile_def
        first_segment_def)

section \<open>Course selection\<close>

text \<open>
  Both passes keep the selected codes distinct, never let the remaining credits drop
  below zero, and keep the sum of the selected credits plus the remaining credits
  unchanged.
\<close>

lemma first_pass_inv:
  "first_pass rs completed (sel, rem) = (sel', rem') \<Longrightarrow>
   distinct (map code sel) \<Longrightarrow> 0 \<le> rem \<Longrightarrow>
   distinct (map code sel') \<and> 0 \<le> rem' \<and>
   sum_list (map get_credits sel') + rem' = sum_list (map get_credits sel) + rem"
proof (induction rs arbitrary: sel rem)
  case Nil
  then show ?case by simp
next
  case (Cons c cs)
  show ?case
  proof (cases "code c \<notin> set completed \<and> code c \<notin> set (map code sel) \<and> get_credits c \<le> rem")
    case True
    with Cons.prems have "first_pass cs completed (sel @ [c], rem - get_credits c) = (sel', rem')"
      by (simp add: Let_def)
    from Cons.IH[OF this] True Cons.prems show ?thesis by auto
  next
    case False
    with Cons.prems have "first_pass cs completed (sel, rem) = (sel', rem')"
      by (auto simp: Let_def split: if_splits)
    from Cons.IH[OF this] Cons.prems show ?thesis by auto
  qed
qed

lemma second_pass_inv:
  "second_pass rs completed (sel, rem) = (sel', rem') \<Longrightarrow>
   distinct (map code sel) \<Longrightarrow> 0 \<le> rem \<Longrightarrow>
   distinct (map code sel') \<and> 0 \<le> rem' \<and>
   sum_list (map get_credits sel') + rem' = sum_list (map get_credits sel) + rem"
proof (induction rs arbitrary: sel rem)
  case Nil
  then show ?case by simp
next
  case (Cons c cs)
  show ?case
  proof (cases "code c \<notin> set completed \<and> code c \<notin> set (map code sel) \<and> get_credits c \<le> rem")
    case True
    note hit = this
    show ?thesis
    proof (cases "rem - get_credits c < 5")
      case True
      with hit Cons.prems show ?thesis by auto
    next
      case False
      with hit Cons.prems
      have "second_pass cs completed (sel @ [c], rem - get_credits c) = (sel', rem')"
        by simp
      from Cons.IH[OF this] hit Cons.prems show ?thesis by auto
    qed
  next
    case False
    with Cons.prems have "second_pass cs completed (sel, rem) = (sel', rem')"
      by (auto split: if_splits)
    from Cons.IH[OF this] Cons.prems show ?thesis by auto
  qed
qed

lemma filter_courses_inv:
  assumes "0 \<le> available"
  shows "distinct (map code (filter_courses rs completed available)) \<and>
         sum_list (map get_credits (filter_courses rs completed available)) \<le> available"
proof -
  obtain s1 r1 where p1: "first_pass rs completed ([], available) = (s1, r1)"
    by (cases "first_pass rs completed ([], available)")
  from first_pass_inv[OF p1] assms
  have i1: "distinct (map code s1)" "0 \<le> r1" "sum_list (map get_credits s1) + r1 = available"
    by auto
  show ?thesis
  proof (cases "r1 \<ge> 5")
    case False
    with p1 i1 show ?thesis by (simp add: filter_courses_def)
  next
    case True
    obtain s2 r2 where p2: "second_pass rs completed (s1, r1) = (s2, r2)"
      by (cases "second_pass rs completed (s1, r1)")
    from second_pass_inv[OF p2 i1(1) i1(2)] i1
    have "distinct (map code s2)" "0 \<le> r2" "sum_list (map get_credits s2) + r2 = available"
      by auto
    with True p1 p2 show ?thesis by (simp add: filter_courses_def)
  qed
qed

lemma first_pass_distinct:
  "distinct (map code sel) \<Longrightarrow>
   distinct (map code (fst (first_pass rs completed (sel, rem))))"
  by (induction rs arbitrary: sel rem) (auto simp: Let_def)

lemma second_pass_distinct:
  "distinct (map code sel) \<Longrightarrow>
   distinct (map code (fst (second_pass rs completed (sel, rem))))"
  by (induction rs arbitrary: sel rem) auto

lemma filter_courses_distinct:
  "distinct (map code (filter_courses rs completed available))"
proof -
  obtain s1 r1 where p1: "first_pass rs completed ([], available) = (s1, r1)"
    by (cases "first_pass rs completed ([], available)")
  from first_pass_distinct [of "[]" rs completed available] p1
  have d1: "distinct (map code s1)" by simp
  from second_pass_distinct [OF d1, of rs completed r1] d1 p1
  show ?thesis by (simp add: filter_courses_def)
qed

text \<open>The plan of the example profile, evaluated step by step.\<close>

lemma demo_specialization:
  "determine_specialization ''HKU MFWM'' [] = ''quantitative_finance''"
  by (simp add: determine_specialization_def case_defs str_in_def sublist_code Let_def)

lemma quantitative_path:
  "path_core_sequence ''quantitative_finance'' = [''ECO205'', ''ECO214'', ''ECO302'', ''FIN301'', ''ECO305'']"
  "path_electives ''quantitative_finance'' = [''ECO309'', ''ECO227'', ''MTH212'']"
  by (simp_all add: path_core_sequence_def path_electives_def SPECIALIZATION_PATHS_def)

lemma demo_resolve:
  "resolve_courses demo_catalog
     [''ECO205'', ''ECO214'', ''ECO302'', ''FIN301'', ''ECO305'', ''ECO309'', ''ECO227'', ''MTH212'']
   = [c_ECO205, c_ECO214, c_ECO302, c_FIN301, c_ECO305, c_MTH212]"
  by (simp add: demo_lookup)

lemma demo_prereq_checks:
  "check_prerequisites_met demo_catalog ''ECO205'' []"
  "\<not> check_prerequisites_met demo_catalog ''ECO214'' []"
  "\<not> check_prerequisites_met demo_catalog ''ECO302'' []"
  "check_prerequisites_met demo_catalog ''FIN301'' []"
  "check_prerequisites_met demo_catalog ''ECO305'' []"
  "check_prerequisites_met demo_catalog ''MTH212'' []"
  by (simp_all add: check_prerequisites_met_def get_prerequisites_def demo_lookup demo_course_defs)

lemma demo_recommended:
  "get_recommended_courses demo_catalog ''quantitative_finance'' ''2025-2026'' ''Fall'' []
   = [c_ECO205, c_FIN301, c_ECO305]"
  by (simp add: get_recommended_courses_def quantitative_path demo_lookup Let_def case_defs
        demo_semesters demo_prereq_checks demo_codes demo_credits sort_reverse_def)

lemma demo_filter:
  "filter_courses [c_ECO205, c_FIN301, c_ECO305] [] 15 = [c_ECO205, c_FIN301, c_ECO305]"
  by (simp add: filter_courses_def demo_codes demo_credits Let_def)

lemma demo_plan_courses:
  "plan_body demo_service demo_profile = Inr (generate_semester_plan demo_service demo_profile) \<and>
   plan_courses (generate_semester_plan demo_service demo_profile) = [c_ECO205, c_FIN301, c_ECO305]"
  by (simp add: generate_semester_plan_def plan_body_def Let_def demo_service_def demo_profile_def
       get_academic_year_def get_current_semester_def get_completed_courses_def get_available_credits_def
       demo_specialization demo_recommended demo_filter demo_workload [unfolded demo_profile_def])

text \<open>
  C2, as the code has it. Whenever the body of plan generation returns a plan (no
  fall-back to the default plan), that plan is the result of
  \<open>generate_semester_plan\<close>, its \<open>total_credits\<close> is the sum of the credits of the
  selected courses (5 for a course without a credits entry), and no course code occurs
  twice among the selected courses. When the credit budget \<open>available_credits\<close> is not
  negative, \<open>total_credits\<close> does not exceed it.
\<close>

theorem plan_within_budget_and_distinct:
  assumes "plan_body svc ctx = Inr p"
  shows "generate_semester_plan svc ctx = p \<and>
         plan_total_credits p = sum_list (map get_credits (plan_courses p)) \<and>
         distinct (map code (plan_courses p)) \<and>
         (0 \<le> get_available_credits ctx \<longrightarrow> plan_total_credits p \<le> get_available_credits ctx)"
  using assms filter_courses_inv filter_courses_distinct
  by (auto simp: plan_body_def generate_semester_plan_def Let_def split: sum.splits)

theorem plan_within_budget_and_distinct_witness:
  "plan_body demo_service demo_profile = Inr (generate_semester_plan demo_service demo_profile) \<and>
   0 \<le> get_available_credits demo_profile \<and>
   plan_courses (generate_semester_plan demo_service demo_profile)
     = [c_ECO205, c_FIN301, c_ECO305] \<and>
   plan_total_credits (generate_semester_plan demo_service demo_profile) = 15 \<and>
   plan_total_credits (generate_semester_plan demo_service demo_profile)
     \<le> get_available_credits demo_profile \<and>
   distinct (map code (plan_courses (generate_semester_plan demo_service demo_profile)))"
proof -
  have h1: "plan_body demo_service demo_profile
              = Inr (generate_semester_plan demo_service demo_profile)"
    using demo_plan_courses by simp
  have h2: "0 \<le> get_available_credits demo_profile"
    by (simp add: get_available_credits_def demo_profile_def)
  from plan_within_budget_and_distinct [OF h1] h1 h2 demo_plan_courses
  show ?thesis by (simp add: demo_credits)
qed

section \<open>Intent classification\<close>

lemma detect_intent_loop_none:
  "\<forall>e\<in>set tbl. \<forall>kw\<in>set (snd e). \<not> sublist kw q \<Longrightarrow> detect_intent_loop tbl q = ''general_query''"
  by (induction tbl) (auto simp: str_in_def list_ex_iff)

lemma detect_intent_loop_first:
  "k < length tbl \<Longrightarrow> \<exists>kw\<in>set (snd (tbl ! k)). sublist kw q \<Longrightarrow>
   \<forall>e\<in>set (take k tbl). \<forall>kw\<in>set (snd e). \<not> sublist kw q \<Longrightarrow>
   detect_intent_loop tbl q = fst (tbl ! k)"
proof (induction tbl arbitrary: k)
  case Nil
  then show ?case by simp
next
  case (Cons e tbl)
  obtain intent kws where e: "e = (intent, kws)" by (cases e)
  show ?case
  proof (cases k)
    case 0
    with Cons.prems e show ?thesis by (auto simp: str_in_def list_ex_iff)
  next
    case (Suc k')
    with Cons.prems e have "\<not> list_ex (\<lambda>keyword. str_in keyword q) kws"
      by (auto simp: str_in_def list_ex_iff)
    moreover from Suc Cons.prems have "detect_intent_loop tbl q = fst (tbl ! k')"
      by (intro Cons.IH) auto
    ultimately show ?thesis using e Suc by simp
  qed
qed

lemma detect_intent_loop_range:
  "detect_intent_loop tbl q \<in> set (map fst tbl) \<union> {''general_query''}"
proof (induction tbl)
  case Nil
  then show ?case by simp
next
  case (Cons e tbl)
  obtain intent kws where e: "e = (intent, kws)" by (cases e)
  with Cons show ?case by auto
qed

lemma intent_keys:
  "map fst INTENT_KEYWORDS = [''course_explanation'', ''semester_planning'', ''career_alignment'',
       ''prerequisite_check'', ''workload_assessment'']"
  by (simp add: INTENT_KEYWORDS_def)

lemma detect_intent_loop_earlier_wins:
  assumes d: "distinct (map fst tbl)" and jk: "j < k" "k < length tbl"
    and hj: "\<exists>kw\<in>set (snd (tbl ! j)). sublist kw q"
  shows "detect_intent_loop tbl q \<noteq> fst (tbl ! k)"
proof -
  define m where "m = (LEAST i. \<exists>kw\<in>set (snd (tbl ! i)). sublist kw q)"
  have hm: "\<exists>kw\<in>set (snd (tbl ! m)). sublist kw q"
    unfolding m_def using hj by (rule LeastI)
  have mj: "m \<le> j" unfolding m_def using hj by (rule Least_le)
  have before: "\<forall>e\<in>set (take m tbl). \<forall>kw\<in>set (snd e). \<not> sublist kw q"
  proof
    fix e assume "e \<in> set (take m tbl)"
    then obtain i where i: "i < m" "i < length tbl" "e = tbl ! i"
      by (auto simp: in_set_conv_nth)
    from i(1) have "\<not> (\<exists>kw\<in>set (snd (tbl ! i)). sublist kw q)"
      unfolding m_def by (rule not_less_Least)
    with i(3) show "\<forall>kw\<in>set (snd e). \<not> sublist kw q" by simp
  qed
  from mj jk have ml: "m < length tbl" "m \<noteq> k" by auto
  have "detect_intent_loop tbl q = fst (tbl ! m)"
    using ml(1) hm before by (rule detect_intent_loop_first)
  moreover have "fst (tbl ! m) \<noteq> fst (tbl ! k)"
    using d ml jk(2) by (auto simp: distinct_conv_nth)
  ultimately show ?thesis by simp
qed

text \<open>
  C4. The intents are declared in the order course_explanation, semester_planning,
  career_alignment, prerequisite_check, workload_assessment. For every query:
  when no trigger of any intent is a substring of the query the result is
  general_query; when a trigger of the intent at position \<open>k\<close> is a substring of the
  query and no trigger of an intent before \<open>k\<close> is, the result is the intent at \<open>k\<close>;
  when a trigger of an intent at position \<open>j\<close> occurs, no intent declared after \<open>j\<close>
  is returned, whichever of its triggers occur as well; and the result is always one
  of the five intents or general_query (the function is total).
\<close>

theorem detect_intent_first_match:
  "map fst INTENT_KEYWORDS =
     [''course_explanation'', ''semester_planning'', ''career_alignment'',
      ''prerequisite_check'', ''workload_assessment''] \<and>
   ((\<forall>e\<in>set INTENT_KEYWORDS. \<forall>kw\<in>set (snd e). \<not> sublist kw query) \<longrightarrow>
      detect_intent query = ''general_query'') \<and>
   (\<forall>k<length INTENT_KEYWORDS.
      (\<exists>kw\<in>set (snd (INTENT_KEYWORDS ! k)). sublist kw query) \<and>
      (\<forall>e\<in>set (take k INTENT_KEYWORDS). \<forall>kw\<in>set (snd e). \<not> sublist kw query) \<longrightarrow>
      detect_intent query = fst (INTENT_KEYWORDS ! k)) \<and>
   (\<forall>j k. j < k \<and> k < length INTENT_KEYWORDS \<and>
      (\<exists>kw\<in>set (snd (INTENT_KEYWORDS ! j)). sublist kw query) \<longrightarrow>
      detect_intent query \<noteq> fst (INTENT_KEYWORDS ! k)) \<and>
   detect_intent query \<in> set (map fst INTENT_KEYWORDS) \<union> {''general_query''}"
proof (intro conjI allI impI)
  show "map fst INTENT_KEYWORDS =
     [''course_explanation'', ''semester_planning'', ''career_alignment'',
      ''prerequisite_check'', ''workload_assessment'']"
    by (rule intent_keys)
next
  assume "\<forall>e\<in>set INTENT_KEYWORDS. \<forall>kw\<in>set (snd e). \<not> sublist kw query"
  then show "detect_intent query = ''general_query''"
    unfolding detect_intent_def by (rule detect_intent_loop_none)
next
  fix k
  assume "k < length INTENT_KEYWORDS"
    and "(\<exists>kw\<in>set (snd (INTENT_KEYWORDS ! k)). sublist kw query) \<and>
      (\<forall>e\<in>set (take k INTENT_KEYWORDS). \<forall>kw\<in>set (snd e). \<not> sublist kw query)"
  then show "detect_intent query = fst (INTENT_KEYWORDS ! k)"
    unfolding detect_intent_def using detect_intent_loop_first by blast
next
  fix j k
  assume a: "j < k \<and> k < length INTENT_KEYWORDS \<and>
      (\<exists>kw\<in>set (snd (INTENT_KEYWORDS ! j)). sublist kw query)"
  have d: "distinct (map fst INTENT_KEYWORDS)" by (simp add: intent_keys)
  from a show "detect_intent query \<noteq> fst (INTENT_KEYWORDS ! k)"
    unfolding detect_intent_def using detect_intent_loop_earlier_wins [OF d] by blast
next
  show "detect_intent query \<in> set (map fst INTENT_KEYWORDS) \<union> {''general_query''}"
    unfolding detect_intent_def by (rule detect_intent_loop_range)
qed

text \<open>
  The witness: a query with the triggers \<open>plan\<close> (semester_planning) and \<open>hard\<close>
  (workload_assessment) is classified as semester_planning, and a query with no
  trigger as general_query.
\<close>

theorem detect_intent_first_match_witness:
  "detect_intent ''plan my hard semester'' = ''semester_planning'' \<and>
   sublist ''plan'' ''plan my hard semester'' \<and>
   sublist ''hard'' ''plan my hard semester'' \<and>
   detect_intent ''plan my hard semester'' \<noteq> ''workload_assessment'' \<and>
   detect_intent ''hello'' = ''general_query''"
proof -
  have none: "\<forall>e\<in>set INTENT_KEYWORDS. \<forall>kw\<in>set (snd e). \<not> sublist kw ''hello''"
    by (simp add: INTENT_KEYWORDS_def sublist_code)
  have hit1: "\<exists>kw\<in>set (snd (INTENT_KEYWORDS ! 1)). sublist kw ''plan my hard semester''"
    by (simp add: INTENT_KEYWORDS_def sublist_code)
  have before1: "\<forall>e\<in>set (take 1 INTENT_KEYWORDS). \<forall>kw\<in>set (snd e). \<not> sublist kw ''plan my hard semester''"
    by (simp add: INTENT_KEYWORDS_def sublist_code)
  have len: "(1::nat) < length INTENT_KEYWORDS" "(4::nat) < length INTENT_KEYWORDS" 
    by (simp_all add: INTENT_KEYWORDS_def)
  have k1: "fst (INTENT_KEYWORDS ! 1) = ''semester_planning''" "fst (INTENT_KEYWORDS ! 4) = ''workload_assessment''"
    by (simp_all add: INTENT_KEYWORDS_def)
  from detect_intent_first_match [of "''hello''"] none
  have g: "detect_intent ''hello'' = ''general_query''" by blast
  note t = detect_intent_first_match [of "''plan my hard semester''"]
  from t len(1) hit1 before1
  have p1: "detect_intent ''plan my hard semester'' = fst (INTENT_KEYWORDS ! 1)"
    by blast
  have "(1::nat) < 4" by simp
  with t len(2) hit1
  have p2: "detect_intent ''plan my hard semester'' \<noteq> fst (INTENT_KEYWORDS ! 4)"
    by blast
  note p = p1 p2
  from g p k1 show ?thesis by (simp add: sublist_code)
qed


section \<open>The default plan\<close>

lemma plan_body_blank_year:
  "first_segment (get_academic_year ctx) = [] \<Longrightarrow> plan_body svc ctx = Inl IndexError"
  by (simp add: plan_body_def Let_def assess_workload_def)

lemma blank_year_fails: "plan_body demo_service blank_year_profile = Inl IndexError"
  by (simp add: plan_body_blank_year get_academic_year_def blank_year_profile_def first_segment_def)

text \<open>
  C8. Whenever an exception is raised inside plan generation, \<open>generate_semester_plan\<close>
  still returns a plan, and it is the fixed default plan: the two introductory courses
  ECO213 Macroeconomics I and ECO217 Microeconomics I, 10 total credits, workload
  level light, career alignment score 0.6 (the float of that literal), and the single
  gap-analysis entry saying that a default plan was used.
\<close>

theorem default_plan_on_exception:
  assumes "plan_body svc ctx = Inl e"
  shows "generate_semester_plan svc ctx = get_default_plan ctx \<and>
         map code (plan_courses (generate_semester_plan svc ctx)) = [''ECO213'', ''ECO217''] \<and>
         map name (plan_courses (generate_semester_plan svc ctx))
           = [''Macroeconomics I'', ''Microeconomics I''] \<and>
         plan_total_credits (generate_semester_plan svc ctx) = 10 \<and>
         plan_workload_level (generate_semester_plan svc ctx) = ''light'' \<and>
         plan_career_alignment_score (generate_semester_plan svc ctx) = float_lit (6 / 10) \<and>
         plan_gap_analysis (generate_semester_plan svc ctx)
           = [''Default plan used due to system constraints'']"
  using assms by (simp add: generate_semester_plan_def get_default_plan_def)

text \<open>
  The witness: an empty academic-year string makes the workload assessment raise
  IndexError, and the default plan is returned.
\<close>

theorem default_plan_on_exception_witness:
  "plan_body demo_service blank_year_profile = Inl IndexError \<and>
   generate_semester_plan demo_service blank_year_profile = get_default_plan blank_year_profile \<and>
   plan_total_credits (generate_semester_plan demo_service blank_year_profile) = 10 \<and>
   plan_workload_level (generate_semester_plan demo_service blank_year_profile) = ''light''"
  using default_plan_on_exception [OF blank_year_fails] blank_year_fails
  by (simp add: get_default_plan_def)

section \<open>Specialization selection\<close>

text \<open>
  The first test of the cascade looks for \<^verbatim>\<open>"hkU mfwm"\<close>, with a capital U, in the
  lower-cased target program. A lower-cased string has no capital U, so this test
  never succeeds.
\<close>

lemma lower_char_not_U: "lower_char c \<noteq> CHR ''U''"
  by (simp add: lower_char_def ascii_uppercase_def ascii_lowercase_def)

lemma lower_has_no_U: "CHR ''U'' \<notin> set (lower s)"
proof
  assume "CHR ''U'' \<in> set (lower s)"
  then obtain c where "lower_char c = CHR ''U''" by (auto simp: lower_def)
  with lower_char_not_U show False by blast
qed

lemma alias_never_matches: "\<not> str_in ''hkU mfwm'' (lower s)"
proof
  assume "str_in ''hkU mfwm'' (lower s)"
  then have "set ''hkU mfwm'' \<subseteq> set (lower s)"
    unfolding str_in_def by (rule set_mono_sublist)
  then have "CHR ''U'' \<in> set (lower s)" by simp
  with lower_has_no_U show False by blast
qed

lemma alias_falls_through:
  "determine_specialization ''HKU MFWM'' [''ECO213''] = ''policy_analysis''"
  by (simp add: determine_specialization_def case_defs str_in_def sublist_code Let_def)

text \<open>
  C1, as the code has it. For every target program whose lower-cased text does not
  contain the programme alias "hku mfwm", and every list of completed courses: if the
  lower-cased target contains "family wealth" the result is quantitative_finance; else
  if it contains "policy" or "central bank" it is policy_analysis; else if it contains
  "sustain" or "esg" it is sustainable_finance; otherwise the completed courses among
  the quantitative markers and among the policy markers are counted, and the result is
  quantitative_finance when the quantitative count is strictly larger or the policy
  count is zero, and policy_analysis otherwise, in particular on a tie with a positive
  count.
\<close>

theorem determine_specialization_cascade:
  assumes "\<not> sublist ''hku mfwm'' (lower tp)"
  shows "determine_specialization tp completed =
     (if sublist ''family wealth'' (lower tp) then ''quantitative_finance''
      else if sublist ''policy'' (lower tp) \<or> sublist ''central bank'' (lower tp)
        then ''policy_analysis''
      else if sublist ''sustain'' (lower tp) \<or> sublist ''esg'' (lower tp)
        then ''sustainable_finance''
      else if length (filter (\<lambda>c. c \<in> {''ECO213'', ''ECO216'', ''ECO225'', ''POL201''}) completed)
                < length (filter (\<lambda>c. c \<in> {''ECO205'', ''ECO214'', ''ECO302'', ''MTH212''}) completed)
              \<or> length (filter (\<lambda>c. c \<in> {''ECO213'', ''ECO216'', ''ECO225'', ''POL201''}) completed) = 0
        then ''quantitative_finance''
      else ''policy_analysis'')"
  using alias_never_matches [of tp]
  by (simp add: determine_specialization_def Let_def str_in_def del: length_0_conv)

theorem determine_specialization_cascade_witness:
  "\<not> sublist ''hku mfwm'' (lower ''Family Wealth Office'') \<and>
   determine_specialization ''Family Wealth Office'' [''ECO213''] = ''quantitative_finance'' \<and>
   \<not> sublist ''hku mfwm'' (lower ''Central Bank research'') \<and>
   determine_specialization ''Central Bank research'' [''ECO205''] = ''policy_analysis'' \<and>
   \<not> sublist ''hku mfwm'' (lower ''ESG investing'') \<and>
   determine_specialization ''ESG investing'' [] = ''sustainable_finance'' \<and>
   \<not> sublist ''hku mfwm'' (lower '''') \<and>
   determine_specialization '''' [''ECO205'', ''ECO214'', ''ECO213''] = ''quantitative_finance'' \<and>
   determine_specialization '''' [] = ''quantitative_finance''"
proof -
  have h1: "\<not> sublist ''hku mfwm'' (lower ''Family Wealth Office'')"
    by (simp add: case_defs sublist_code)
  have h2: "\<not> sublist ''hku mfwm'' (lower ''Central Bank research'')"
    by (simp add: case_defs sublist_code)
  have h3: "\<not> sublist ''hku mfwm'' (lower ''ESG investing'')"
    by (simp add: case_defs sublist_code)
  have h4: "\<not> sublist ''hku mfwm'' (lower '''')"
    by (simp add: case_defs sublist_code)
  have l1: "lower ''Family Wealth Office'' = ''family wealth office''"
    by (simp add: case_defs)
  have l2: "lower ''Central Bank research'' = ''central bank research''"
    by (simp add: case_defs)
  have l3: "lower ''ESG investing'' = ''esg investing''"
    by (simp add: case_defs)
  have l4: "lower '''' = ''''"
    by (simp add: case_defs)
  have r1: "determine_specialization ''Family Wealth Office'' [''ECO213''] = ''quantitative_finance''"
    using determine_specialization_cascade [OF h1, of "[''ECO213'']"]
    by (simp add: l1 sublist_code)
  have r2: "determine_specialization ''Central Bank research'' [''ECO205''] = ''policy_analysis''"
    using determine_specialization_cascade [OF h2, of "[''ECO205'']"]
    by (simp add: l2 sublist_code)
  have r3: "determine_specialization ''ESG investing'' [] = ''sustainable_finance''"
    using determine_specialization_cascade [OF h3, of "[]"]
    by (simp add: l3 sublist_code)
  have r4: "determine_specialization '''' [''ECO205'', ''ECO214'', ''ECO213''] = ''quantitative_finance''"
    using determine_specialization_cascade [OF h4, of "[''ECO205'', ''ECO214'', ''ECO213'']"]
    by (simp add: l4 sublist_code)
  have r5: "determine_specialization '''' [] = ''quantitative_finance''"
    using determine_specialization_cascade [OF h4, of "[]"]
    by (simp add: l4 sublist_code)
  from h1 h2 h3 h4 r1 r2 r3 r4 r5 show ?thesis by blast
qed

text \<open>
  The claim as stated fails on a tie with a positive count: with one quantitative
  marker and one policy marker completed and no goal text, the result is
  policy_analysis, not quantitative_finance.
\<close>

theorem determine_specialization_tie_counterexample:
  "determine_specialization '''' [''ECO205'', ''ECO213''] = ''policy_analysis'' \<and>
   determine_specialization '''' [''ECO205'', ''ECO213''] \<noteq> ''quantitative_finance''"
  by (simp add: determine_specialization_def case_defs str_in_def sublist_code Let_def)

section \<open>Keyword search\<close>

lemma index_course_lookup:
  "distinct (map fst tbl) \<Longrightarrow>
   index_course c tbl idx s =
     (case map_of tbl s of
        None \<Rightarrow> idx s
      | Some kws \<Rightarrow>
          if list_ex (\<lambda>tag. tag \<in> set kws) (get_tags c)
          then Some ((case idx s of None \<Rightarrow> [] | Some bucket \<Rightarrow> bucket) @ [c])
          else idx s)"
proof (induction tbl arbitrary: idx)
  case Nil
  then show ?case by simp
next
  case (Cons e tbl)
  obtain subject kws0 where e: "e = (subject, kws0)" by (cases e)
  from Cons.prems e have d: "distinct (map fst tbl)" and fresh: "subject \<notin> fst ` set tbl"
    by auto
  from fresh have none: "map_of tbl subject = None"
    by (simp add: map_of_eq_None_iff)
  show ?case
  proof (cases "s = subject")
    case True
    with e none Cons.IH [OF d] show ?thesis by simp
  next
    case False
    with e Cons.IH [OF d] show ?thesis by (simp split: option.splits)
  qed
qed

lemma subject_keys_distinct: "distinct (map fst subject_keywords)"
  by (simp add: subject_keywords_def)

lemma build_loop_lookup:
  "build_loop cs idx s =
     (case map_of subject_keywords s of
        None \<Rightarrow> idx s
      | Some kws \<Rightarrow>
          if filter (\<lambda>c. list_ex (\<lambda>tag. tag \<in> set kws) (get_tags c)) cs = [] then idx s
          else Some ((case idx s of None \<Rightarrow> [] | Some bucket \<Rightarrow> bucket)
                      @ filter (\<lambda>c. list_ex (\<lambda>tag. tag \<in> set kws) (get_tags c)) cs))"
proof (induction cs arbitrary: idx)
  case Nil
  then show ?case by (simp split: option.splits)
next
  case (Cons c cs)
  show ?case
    by (simp add: Cons.IH index_course_lookup [OF subject_keys_distinct] split: option.splits)
qed

lemma keyword_index_bucket:
  assumes "build_keyword_index catalog s = Some bucket"
  shows "\<exists>kws. map_of subject_keywords s = Some kws \<and> bucket \<noteq> [] \<and>
           bucket = filter (\<lambda>c. list_ex (\<lambda>tag. tag \<in> set kws) (get_tags c)) catalog"
  using assms
  by (auto simp: build_keyword_index_def build_loop_lookup split: option.splits if_splits)

lemma distinct_codes_filter:
  "distinct (map code xs) \<Longrightarrow> distinct (map code (filter P xs))"
  by (rule distinct_map_filter)

lemma distinct_codes_sort_reverse:
  "distinct (map code xs) \<Longrightarrow> distinct (map code (sort_reverse key xs))"
  by (simp add: sort_reverse_def distinct_map)

lemma distinct_codes_take:
  "distinct (map code xs) \<Longrightarrow> distinct (map code (take n xs))"
  by (simp add: take_map [symmetric])

lemma set_sort_reverse: "set (sort_reverse key xs) = set xs"
  by (simp add: sort_reverse_def)

lemma length_sort_reverse: "length (sort_reverse key xs) = length xs"
  by (simp add: sort_reverse_def)

lemma eco_bucket:
  "build_keyword_index eleven_eco_courses ''eco'' = Some eleven_eco_courses"
  by (simp add: build_keyword_index_def build_loop_lookup subject_keywords_def
        eleven_eco_courses_def eco_course_def get_tags_def)

lemma demo_no_bucket: "build_keyword_index demo_catalog (lower ''Econometrics'') = None"
  by (simp add: build_keyword_index_def build_loop_lookup subject_keywords_def case_defs)

lemma demo_distinct: "distinct (map code demo_catalog)"
  by (simp add: demo_catalog_def demo_codes)

text \<open>
  C3, as the code has it. For every catalog and keyword: when the lower-cased keyword
  is not a key of the tag index, the substring tier returns at most 10 courses; when
  it is a key, the bucket is returned as it is, without a cap; in both tiers the
  result has at most as many courses as the catalog and consists of catalog courses,
  and when no code occurs twice in the catalog, no code occurs twice in the result.
\<close>

theorem search_by_keyword_bounds:
  "(build_keyword_index catalog (lower keyword) = None \<longrightarrow>
      length (search_by_keyword catalog keyword) \<le> 10) \<and>
   (\<forall>bucket. build_keyword_index catalog (lower keyword) = Some bucket \<longrightarrow>
      search_by_keyword catalog keyword = bucket) \<and>
   length (search_by_keyword catalog keyword) \<le> length catalog \<and>
   set (search_by_keyword catalog keyword) \<subseteq> set catalog \<and>
   (distinct (map code catalog) \<longrightarrow>
      distinct (map code (search_by_keyword catalog keyword)))"
proof (cases "build_keyword_index catalog (lower keyword)")
  case None
  let ?r = "filter (fuzzy_match (lower keyword)) catalog"
  let ?k = "\<lambda>x. (str_in (lower keyword) (lower (name x)),
                  str_in (lower keyword) (lower (get_description x)))"
  from None have r: "search_by_keyword catalog keyword = take 10 (sort_reverse ?k ?r)"
    by (simp add: search_by_keyword_def Let_def)
  have "length (take 10 (sort_reverse ?k ?r)) \<le> length catalog"
    using length_filter_le [of "fuzzy_match (lower keyword)" catalog]
    by (simp add: length_sort_reverse min_le_iff_disj)
  moreover have "set (take 10 (sort_reverse ?k ?r)) \<subseteq> set catalog"
    using set_take_subset [of 10 "sort_reverse ?k ?r"] by (auto simp: set_sort_reverse)
  moreover have "distinct (map code catalog) \<Longrightarrow>
      distinct (map code (take 10 (sort_reverse ?k ?r)))"
    by (intro distinct_codes_take distinct_codes_sort_reverse distinct_codes_filter)
  ultimately show ?thesis using None r by simp
next
  case (Some bucket)
  then have r: "search_by_keyword catalog keyword = bucket"
    by (simp add: search_by_keyword_def Let_def)
  from keyword_index_bucket [OF Some] obtain kws where
    b: "bucket = filter (\<lambda>c. list_ex (\<lambda>tag. tag \<in> set kws) (get_tags c)) catalog"
    by blast
  have "length bucket \<le> length catalog" "set bucket \<subseteq> set catalog"
    "distinct (map code catalog) \<Longrightarrow> distinct (map code bucket)"
    unfolding b by (auto intro: distinct_codes_filter)
  with Some r show ?thesis by simp
qed

theorem search_by_keyword_bounds_witness:
  "build_keyword_index demo_catalog (lower ''Econometrics'') = None \<and>
   length (search_by_keyword demo_catalog ''Econometrics'') \<le> 10 \<and>
   distinct (map code demo_catalog) \<and>
   distinct (map code (search_by_keyword demo_catalog ''Econometrics'')) \<and>
   build_keyword_index eleven_eco_courses (lower ''eco'') = Some eleven_eco_courses \<and>
   search_by_keyword eleven_eco_courses ''eco'' = eleven_eco_courses"
proof -
  have l: "lower ''eco'' = ''eco''" by (simp add: case_defs)
  have b: "build_keyword_index eleven_eco_courses (lower ''eco'') = Some eleven_eco_courses"
    by (simp add: l eco_bucket)
  from search_by_keyword_bounds [of demo_catalog "''Econometrics''"]
       search_by_keyword_bounds [of eleven_eco_courses "''eco''"]
       demo_no_bucket demo_distinct b
  show ?thesis by blast
qed

text \<open>
  The claim as stated fails in the index tier: with eleven courses tagged \<open>eco\<close> the
  keyword \<open>eco\<close> returns all eleven.
\<close>

theorem search_by_keyword_cap_counterexample:
  "\<not> length (search_by_keyword eleven_eco_courses ''eco'') \<le> 10"
proof -
  have "lower ''eco'' = ''eco''" by (simp add: case_defs)
  then have "search_by_keyword eleven_eco_courses ''eco'' = eleven_eco_courses"
    by (simp add: search_by_keyword_def eco_bucket)
  then show ?thesis by (simp add: eleven_eco_courses_def)
qed

section \<open>Score ranges and the zero-credit plan\<close>

lemma alignment_range:
  "0 \<le> calculate_career_alignment cs specialization tp \<and>
   calculate_career_alignment cs specialization tp \<le> 1"
  by (simp add: calculate_career_alignment_def Let_def)

lemma alignment_empty: "calculate_career_alignment [] specialization tp = 0"
  by (simp add: calculate_career_alignment_def)

lemma alignment_empty_core:
  assumes "path_core_sequence specialization = []" and "\<not> str_in ''HKU MFWM'' tp"
  shows "calculate_career_alignment cs specialization tp = 0"
  using assms by (simp add: calculate_career_alignment_def Let_def rnd_zero)

lemma assess_workload_levels:
  "assess_workload cs ctx = Inr level \<Longrightarrow> level \<in> {''light'', ''moderate'', ''heavy''}"
  by (auto simp: assess_workload_def Let_def split: if_splits sum.splits)

lemma default_score_range: "0 \<le> float_lit (6 / 10) \<and> float_lit (6 / 10) \<le> 1"
  by (simp only: float_literals; simp)

lemma empty_workload:
  assumes "first_segment (get_academic_year ctx) \<noteq> []"
  shows "assess_workload [] ctx = Inr ''light''"
proof -
  have s: "spec_workload_score [] L = 0" for L
    by (simp add: spec_workload_score_def spec_avg_difficulty_def spec_total_credits_def
          float_add_def float_mul_def float_div_def rnd_zero)
  have l: "(0 :: rat) < float_lit (6 / 10)"
    by (simp only: float_literals; simp)
  then have "spec_workload_level 0 = ''light''"
    by (simp only: spec_workload_level_def if_True)
  with assess_workload_spec [OF assms, of "[]"] s show ?thesis
    by (simp add: spec_total_credits_def spec_difficulty_sum_def)
qed

lemma plan_body_fields:
  assumes "plan_body svc ctx = Inr p"
  shows "plan_career_alignment_score p =
           calculate_career_alignment (plan_courses p) (plan_specialization p)
             (case target_program ctx of None \<Rightarrow> [] | Some t \<Rightarrow> t) \<and>
         assess_workload (plan_courses p) ctx = Inr (plan_workload_level p)"
  using assms by (auto simp: plan_body_def Let_def split: sum.splits)

lemma plan_ranges:
  "0 \<le> plan_career_alignment_score (generate_semester_plan svc ctx) \<and>
   plan_career_alignment_score (generate_semester_plan svc ctx) \<le> 1 \<and>
   plan_workload_level (generate_semester_plan svc ctx) \<in> {''light'', ''moderate'', ''heavy''}"
proof (cases "plan_body svc ctx")
  case (Inl e)
  with default_score_range show ?thesis
    by (simp add: generate_semester_plan_def get_default_plan_def)
next
  case (Inr p)
  note f = plan_body_fields [OF Inr]
  from f have "plan_workload_level p \<in> {''light'', ''moderate'', ''heavy''}"
    using assess_workload_levels by blast
  moreover from f have "0 \<le> plan_career_alignment_score p \<and> plan_career_alignment_score p \<le> 1"
    using alignment_range by simp
  ultimately show ?thesis using Inr by (simp add: generate_semester_plan_def)
qed

lemma first_pass_nonpositive:
  "\<forall>c\<in>set rs. 0 < get_credits c \<Longrightarrow> remaining \<le> 0 \<Longrightarrow>
   first_pass rs completed (sel, remaining) = (sel, remaining)"
  by (induction rs) (auto simp: Let_def)

lemma filter_courses_nonpositive:
  "\<forall>c\<in>set rs. 0 < get_credits c \<Longrightarrow> available \<le> 0 \<Longrightarrow>
   filter_courses rs completed available = []"
  by (simp add: filter_courses_def first_pass_nonpositive)

lemma resolve_courses_subset: "set (resolve_courses catalog codes) \<subseteq> set catalog"
proof (induction codes)
  case Nil
  then show ?case by simp
next
  case (Cons k ks)
  have "\<And>c. get_course_by_code_loop catalog u = Some c \<Longrightarrow> c \<in> set catalog" for u
    by (induction catalog) (auto split: if_splits)
  with Cons show ?case by (auto simp: get_course_by_code_def split: option.splits)
qed

lemma recommended_subset:
  "set (get_recommended_courses catalog sp ay sem completed) \<subseteq> set catalog"
  using resolve_courses_subset [of catalog "path_core_sequence sp @ path_electives sp"]
  by (auto simp: get_recommended_courses_def Let_def sort_reverse_def)

lemma nonpositive_credit_plan:
  assumes pos: "\<forall>c\<in>set (course_service svc). 0 < get_credits c"
    and seg: "first_segment (get_academic_year ctx) \<noteq> []"
    and budget: "get_available_credits ctx \<le> 0"
  shows "plan_body svc ctx = Inr (generate_semester_plan svc ctx) \<and>
         plan_courses (generate_semester_plan svc ctx) = [] \<and>
         plan_total_credits (generate_semester_plan svc ctx) = 0 \<and>
         plan_workload_level (generate_semester_plan svc ctx) = ''light'' \<and>
         plan_career_alignment_score (generate_semester_plan svc ctx) = 0"
proof -
  let ?rec = "get_recommended_courses (course_service svc)
                (determine_specialization (case target_program ctx of None \<Rightarrow> [] | Some t \<Rightarrow> t)
                   (get_completed_courses ctx))
                (get_academic_year ctx) (get_current_semester ctx) (get_completed_courses ctx)"
  from pos recommended_subset have "\<forall>c\<in>set ?rec. 0 < get_credits c" by blast
  then have f: "filter_courses ?rec (get_completed_courses ctx) (get_available_credits ctx) = []"
    using budget by (rule filter_courses_nonpositive)
  show ?thesis
    by (simp add: generate_semester_plan_def plan_body_def Let_def f
          empty_workload [OF seg] alignment_empty)
qed

lemma zero_credit_plan:
  assumes pos: "\<forall>c\<in>set (course_service svc). 0 < get_credits c"
    and seg: "first_segment (get_academic_year ctx) \<noteq> []"
    and zero: "get_available_credits ctx = 0"
  shows "plan_body svc ctx = Inr (generate_semester_plan svc ctx) \<and>
         plan_courses (generate_semester_plan svc ctx) = [] \<and>
         plan_total_credits (generate_semester_plan svc ctx) = 0 \<and>
         plan_workload_level (generate_semester_plan svc ctx) = ''light'' \<and>
         plan_career_alignment_score (generate_semester_plan svc ctx) = 0"
  using nonpositive_credit_plan [OF pos seg] zero by simp

text \<open>
  The budget claim C2 as stated fails for a negative credit budget: with -5 available
  credits plan generation succeeds with the empty plan, whose 0 total credits exceed
  the budget.
\<close>

theorem negative_budget_counterexample:
  "plan_body demo_service (demo_profile\<lparr>available_credits := Some (- 5)\<rparr>)
     = Inr (generate_semester_plan demo_service (demo_profile\<lparr>available_credits := Some (- 5)\<rparr>)) \<and>
   plan_courses (generate_semester_plan demo_service (demo_profile\<lparr>available_credits := Some (- 5)\<rparr>)) = [] \<and>
   plan_total_credits (generate_semester_plan demo_service (demo_profile\<lparr>available_credits := Some (- 5)\<rparr>)) = 0 \<and>
   get_available_credits (demo_profile\<lparr>available_credits := Some (- 5)\<rparr>) = - 5 \<and>
   \<not> plan_total_credits (generate_semester_plan demo_service (demo_profile\<lparr>available_credits := Some (- 5)\<rparr>))
       \<le> get_available_credits (demo_profile\<lparr>available_credits := Some (- 5)\<rparr>)"
proof -
  let ?ctx = "demo_profile\<lparr>available_credits := Some (- 5)\<rparr>"
  have pos: "\<forall>c\<in>set (course_service demo_service). 0 < get_credits c"
    by (simp add: demo_service_def demo_catalog_def demo_credits)
  have seg: "first_segment (get_academic_year ?ctx) \<noteq> []"
    by (simp add: get_academic_year_def demo_profile_def year_2025)
  have budget: "get_available_credits ?ctx = - 5"
    by (simp add: get_available_credits_def)
  then have "get_available_credits ?ctx \<le> 0" by simp
  from nonpositive_credit_plan [OF pos seg this] budget show ?thesis by simp
qed

lemma specialization_range:
  "determine_specialization tp completed
     \<in> {''quantitative_finance'', ''policy_analysis'', ''sustainable_finance''}"
  by (simp add: determine_specialization_def Let_def)

lemma generated_core_nonempty:
  "path_core_sequence (determine_specialization tp completed) \<noteq> []"
  using specialization_range [of tp completed]
  by (auto simp: path_core_sequence_def SPECIALIZATION_PATHS_def)

text \<open>
  C7, as the code has it. For every service and profile, the career alignment score of
  the generated plan lies between 0 and 1 and its workload level is light, moderate or
  heavy. When the available credits are zero, every catalog course has positive
  credits and the academic-year string has a non-empty first segment, the plan has no
  courses, 0 total credits, light workload and alignment 0. An empty list of selected
  courses always has alignment 0. The specialization chosen for a profile always has a
  non-empty core sequence; an unknown specialization, whose core sequence is empty,
  has alignment 0 when the target program does not contain "HKU MFWM".
\<close>

theorem plan_scores_in_range:
  "0 \<le> plan_career_alignment_score (generate_semester_plan svc ctx) \<and>
   plan_career_alignment_score (generate_semester_plan svc ctx) \<le> 1 \<and>
   plan_workload_level (generate_semester_plan svc ctx) \<in> {''light'', ''moderate'', ''heavy''} \<and>
   ((\<forall>c\<in>set (course_service svc). 0 < get_credits c) \<and>
    first_segment (get_academic_year ctx) \<noteq> [] \<and> get_available_credits ctx = 0 \<longrightarrow>
      plan_courses (generate_semester_plan svc ctx) = [] \<and>
      plan_total_credits (generate_semester_plan svc ctx) = 0 \<and>
      plan_workload_level (generate_semester_plan svc ctx) = ''light'' \<and>
      plan_career_alignment_score (generate_semester_plan svc ctx) = 0) \<and>
   calculate_career_alignment [] specialization tp = 0 \<and>
   path_core_sequence (determine_specialization tp completed) \<noteq> [] \<and>
   (path_core_sequence specialization = [] \<and> \<not> sublist ''HKU MFWM'' tp \<longrightarrow>
      calculate_career_alignment cs specialization tp = 0)"
  using plan_ranges [of svc ctx] zero_credit_plan [of svc ctx]
    alignment_empty [of specialization tp] alignment_empty_core [of specialization tp cs]
    generated_core_nonempty [of tp completed]
  unfolding str_in_def by blast

lemma general_economics_core: "path_core_sequence ''general_economics'' = []"
  by (simp add: path_core_sequence_def SPECIALIZATION_PATHS_def)

text \<open>
  The witness: the example catalog with zero available credits gives the empty plan,
  and a finance course under an unknown specialization has alignment 0 for the goal
  "graduate studies".
\<close>

theorem plan_scores_in_range_witness:
  "list_all (\<lambda>c. 0 < get_credits c) (course_service demo_service) \<and>
   first_segment (get_academic_year (demo_profile\<lparr>available_credits := Some 0\<rparr>)) \<noteq> [] \<and>
   get_available_credits (demo_profile\<lparr>available_credits := Some 0\<rparr>) = 0 \<and>
   plan_courses (generate_semester_plan demo_service (demo_profile\<lparr>available_credits := Some 0\<rparr>)) = [] \<and>
   plan_total_credits (generate_semester_plan demo_service (demo_profile\<lparr>available_credits := Some 0\<rparr>)) = 0 \<and>
   plan_workload_level (generate_semester_plan demo_service (demo_profile\<lparr>available_credits := Some 0\<rparr>)) = ''light'' \<and>
   plan_career_alignment_score (generate_semester_plan demo_service (demo_profile\<lparr>available_credits := Some 0\<rparr>)) = 0 \<and>
   path_core_sequence ''general_economics'' = [] \<and>
   \<not> sublist ''HKU MFWM'' ''graduate studies'' \<and>
   calculate_career_alignment [c_FIN301] ''general_economics'' ''graduate studies'' = 0"
proof -
  let ?ctx = "demo_profile\<lparr>available_credits := Some 0\<rparr>"
  have pos: "\<forall>c\<in>set (course_service demo_service). 0 < get_credits c"
    by (simp add: demo_service_def demo_catalog_def demo_credits)
  have seg: "first_segment (get_academic_year ?ctx) \<noteq> []"
    by (simp add: get_academic_year_def demo_profile_def year_2025)
  have zero: "get_available_credits ?ctx = 0"
    by (simp add: get_available_credits_def)
  have n: "\<not> sublist ''HKU MFWM'' ''graduate studies''"
    by (simp add: sublist_code)
  note t1 = plan_scores_in_range [of demo_service ?ctx "''general_economics''" "''graduate studies''" "[]" "[c_FIN301]"]
  from t1 pos seg zero have a:
    "plan_courses (generate_semester_plan demo_service ?ctx) = []"
    "plan_total_credits (generate_semester_plan demo_service ?ctx) = 0"
    "plan_workload_level (generate_semester_plan demo_service ?ctx) = ''light''"
    "plan_career_alignment_score (generate_semester_plan demo_service ?ctx) = 0"
    by blast+
  from t1 general_economics_core n
  have b: "calculate_career_alignment [c_FIN301] ''general_economics'' ''graduate studies'' = 0"
    by blast
  have pos_all: "list_all (\<lambda>c. 0 < get_credits c) (course_service demo_service)"
    using pos by (simp only: list_all_iff)
  from pos_all seg zero a b general_economics_core n show ?thesis by blast
qed

text \<open>
  The claim as stated fails in the zero-credit case when the academic-year string has
  an empty first segment: the workload assessment raises IndexError and the default
  plan is returned, with two courses, 10 total credits and the alignment 0.6.
\<close>

theorem zero_credit_blank_year_counterexample:
  "get_available_credits (blank_year_profile\<lparr>available_credits := Some 0\<rparr>) = 0 \<and>
   map code (plan_courses (generate_semester_plan demo_service
                             (blank_year_profile\<lparr>available_credits := Some 0\<rparr>)))
     = [''ECO213'', ''ECO217''] \<and>
   plan_total_credits (generate_semester_plan demo_service
                         (blank_year_profile\<lparr>available_credits := Some 0\<rparr>)) = 10 \<and>
   plan_career_alignment_score (generate_semester_plan demo_service
                                  (blank_year_profile\<lparr>available_credits := Some 0\<rparr>))
     = float_lit (6 / 10) \<and>
   plan_career_alignment_score (generate_semester_plan demo_service
                                  (blank_year_profile\<lparr>available_credits := Some 0\<rparr>)) \<noteq> 0"
proof -
  let ?ctx = "blank_year_profile\<lparr>available_credits := Some 0\<rparr>"
  have "first_segment (get_academic_year ?ctx) = []"
    by (simp add: get_academic_year_def blank_year_profile_def first_segment_def)
  then have "plan_body demo_service ?ctx = Inl IndexError"
    by (rule plan_body_blank_year)
  then have g: "generate_semester_plan demo_service ?ctx = get_default_plan ?ctx"
    by (simp add: generate_semester_plan_def)
  have nz: "float_lit (6 / 10) \<noteq> 0"
    by (simp only: float_literals; simp)
  have z: "get_available_credits ?ctx = 0"
    by (simp add: get_available_credits_def)
  have s: "plan_career_alignment_score (get_default_plan ?ctx) = float_lit (6 / 10)"
    by (simp only: get_default_plan_def plan.simps)
  have c: "map code (plan_courses (get_default_plan ?ctx)) = [''ECO213'', ''ECO217'']"
    "plan_total_credits (get_default_plan ?ctx) = 10"
    by (simp_all add: get_default_plan_def)
  from z c s nz show ?thesis by (simp only: g) simp
qed

text \<open>
  Outside plan generation, an unknown specialization with the goal "HKU MFWM" keeps
  the tag-density term of the blend: one selected finance course has the alignment
  0.4 (the float written \<^verbatim>\<open>0.4\<close>).
\<close>

lemma empty_core_blend_example:
  "path_core_sequence ''general_economics'' = [] \<and>
   calculate_career_alignment [c_FIN301] ''general_economics'' ''HKU MFWM''
     = float_lit (4 / 10) \<and>
   calculate_career_alignment [c_FIN301] ''general_economics'' ''HKU MFWM'' \<noteq> 0"
  by code_simp

section \<open>Semester planning when the collaborator fails\<close>

lemma mock_planning_advice_nonempty: "mock_planning_advice p user_profile q \<noteq> []"
  by (simp add: mock_planning_advice_def Let_def)

lemma planning_advice_fallback:
  "generate_planning_advice ai (Inl e) p user_profile q = mock_planning_advice p user_profile q"
  by (simp add: generate_planning_advice_def call_deepseek_api_def)

lemma handle_semester_planning_keys:
  "map fst (handle_semester_planning d outcome ctx q) =
     [''type'', ''recommended_courses'', ''total_credits'', ''workload_assessment'',
      ''strategic_advice'', ''gap_analysis'', ''career_alignment'', ''academic_year'',
      ''semester'']"
  by (simp add: handle_semester_planning_def Let_def)

lemma handle_semester_planning_no_marker:
  "map_of (handle_semester_planning d outcome ctx q) ''fallback_mode'' = None \<and>
   map_of (handle_semester_planning d outcome ctx q) ''note'' = None"
proof -
  have "fst ` set (handle_semester_planning d outcome ctx q)
          = set (map fst (handle_semester_planning d outcome ctx q))"
    by simp
  then show ?thesis
    by (simp only: map_of_eq_None_iff handle_semester_planning_keys) simp
qed

lemma handle_semester_planning_fields:
  "map_of (handle_semester_planning d outcome ctx q) ''type'' = Some (JStr ''semester_plan'') \<and>
   map_of (handle_semester_planning d outcome ctx q) ''strategic_advice'' =
     Some (JStr (generate_planning_advice (disp_ai_service d) outcome
                   (generate_semester_plan (disp_planning_service d) ctx) ctx q))"
  by (simp add: handle_semester_planning_def Let_def)

lemma dispatch_semester_planning:
  assumes "detect_intent (strip (lower query)) = ''semester_planning''"
  shows "dispatch d outcome others query ctx =
           handle_semester_planning d outcome ctx (strip (lower query))"
  using assms by (simp add: dispatch_def Let_def)

lemma plan_query_intent: "detect_intent (strip (lower ''Plan my semester'')) = ''semester_planning''"
  by (simp add: case_defs strip_def is_space_def detect_intent_def INTENT_KEYWORDS_def
        str_in_def sublist_code)

lemma demo_collaborator_in_use: "\<not> use_mock (disp_ai_service demo_dispatcher)"
  by (simp add: demo_dispatcher_def init_ai_service_def)

text \<open>
  C9, as the code has it. When the normalised query is classified as semester_planning
  and the text-generation collaborator fails, the dispatch result has type
  semester_plan and its strategic_advice is the string of the deterministic template
  \<open>mock_planning_advice\<close> for the generated plan, which is not empty. The response carries
  no degraded-mode marker: its keys are type, recommended_courses, total_credits,
  workload_assessment, strategic_advice, gap_analysis, career_alignment, academic_year
  and semester, and neither fallback_mode nor note is among them.
\<close>

theorem semester_planning_fallback_response:
  assumes "detect_intent (strip (lower query)) = ''semester_planning''"
  shows "map_of (dispatch d (Inl e) others query ctx) ''type'' = Some (JStr ''semester_plan'') \<and>
         map_of (dispatch d (Inl e) others query ctx) ''strategic_advice'' =
           Some (JStr (mock_planning_advice
                         (generate_semester_plan (disp_planning_service d) ctx) ctx
                         (strip (lower query)))) \<and>
         mock_planning_advice (generate_semester_plan (disp_planning_service d) ctx) ctx
           (strip (lower query)) \<noteq> [] \<and>
         map fst (dispatch d (Inl e) others query ctx) =
           [''type'', ''recommended_courses'', ''total_credits'', ''workload_assessment'',
            ''strategic_advice'', ''gap_analysis'', ''career_alignment'', ''academic_year'',
            ''semester''] \<and>
         map_of (dispatch d (Inl e) others query ctx) ''fallback_mode'' = None \<and>
         map_of (dispatch d (Inl e) others query ctx) ''note'' = None"
  using handle_semester_planning_fields [of d "Inl e" ctx "strip (lower query)"]
    handle_semester_planning_keys [of d "Inl e" ctx "strip (lower query)"]
    handle_semester_planning_no_marker [of d "Inl e" ctx "strip (lower query)"]
    mock_planning_advice_nonempty
      [of "generate_semester_plan (disp_planning_service d) ctx" ctx "strip (lower query)"]
  by (simp only: dispatch_semester_planning [OF assms] planning_advice_fallback) simp

text \<open>
  The witness: the query "Plan my semester" for the example profile, with the
  collaborator timing out.
\<close>

theorem semester_planning_fallback_response_witness:
  "detect_intent (strip (lower ''Plan my semester'')) = ''semester_planning'' \<and>
   map_of (dispatch demo_dispatcher (Inl (CollaboratorError ''timeout'')) no_other_handlers
             ''Plan my semester'' demo_profile) ''type'' = Some (JStr ''semester_plan'') \<and>
   map_of (dispatch demo_dispatcher (Inl (CollaboratorError ''timeout'')) no_other_handlers
             ''Plan my semester'' demo_profile) ''strategic_advice'' =
     Some (JStr (mock_planning_advice
                   (generate_semester_plan (disp_planning_service demo_dispatcher) demo_profile)
                   demo_profile (strip (lower ''Plan my semester'')))) \<and>
   mock_planning_advice
     (generate_semester_plan (disp_planning_service demo_dispatcher) demo_profile)
     demo_profile (strip (lower ''Plan my semester'')) \<noteq> []"
  using semester_planning_fallback_response
          [OF plan_query_intent, of demo_dispatcher "CollaboratorError ''timeout''"
             no_other_handlers demo_profile]
        plan_query_intent
  by blast

text \<open>
  The claim as stated fails: with the collaborator in use and timing out, the response
  to "Plan my semester" has neither a fallback_mode nor a note entry.
\<close>

theorem semester_planning_marker_counterexample:
  "\<not> use_mock (disp_ai_service demo_dispatcher) \<and>
   map_of (dispatch demo_dispatcher (Inl (CollaboratorError ''timeout'')) no_other_handlers
             ''Plan my semester'' demo_profile) ''fallback_mode'' = None \<and>
   map_of (dispatch demo_dispatcher (Inl (CollaboratorError ''timeout'')) no_other_handlers
             ''Plan my semester'' demo_profile) ''note'' = None"
  using handle_semester_planning_no_marker
          [of demo_dispatcher "Inl (CollaboratorError ''timeout'')" demo_profile
              "strip (lower ''Plan my semester'')"]
        demo_collaborator_in_use
  by (simp only: dispatch_semester_planning [OF plan_query_intent]) simp

end
